theory Spec2Isabelle
  imports Complex_Main "HOL-Library.AList"
begin

section \<open>Conventions of the embedding\<close>

text \<open>
  The development models the two server paths of the repository, the metered AI call
  (\<^verbatim>\<open>supabase/functions/ai-proxy/index.ts\<close>) and the commit path
  (\<^verbatim>\<open>supabase/functions/mutate/index.ts\<close>), together with the SQL functions they
  call and the client-side reducer (\<^verbatim>\<open>src/state/reducer.ts\<close>).

  \<^item> A JavaScript \<^verbatim>\<open>number\<close> is read as an exact real; \<^verbatim>\<open>NaN\<close> is the value
    \<open>None\<close> of \<open>real option\<close>. A Postgres \<^verbatim>\<open>NUMERIC(10, 6)\<close> is a whole number of
    millionths, and a sum of such values is exact.
  \<^item> A string is a list of characters, one \<open>char\<close> per UTF-16 code unit, so that
    \<open>length\<close> is JavaScript's \<^verbatim>\<open>.length\<close>.
  \<^item> A timestamp is a number of microseconds (the resolution of \<^verbatim>\<open>TIMESTAMPTZ\<close>).
  \<^item> A table with a primary or unique key is a map from that key; an append-only table
    is the list of its rows, oldest first.
  \<^item> An object is the list of its own properties, each key once, in insertion order;
    a request body is the value \<^verbatim>\<open>req.json()\<close> returns.
  \<^item> Every request is handled from start to end before the next one: the model is
    sequential.
\<close>

type_synonym uuid = string
type_synonym timestamp = int

subsection \<open>JavaScript values\<close>

datatype jsval =
    JUndefined
  | JNull
  | JBool bool
  | JNum real
  | JStr string
  | JArr "jsval list"
  | JObj "(string \<times> jsval) list"

text \<open>Truthiness, as \<^verbatim>\<open>!x\<close> and \<^verbatim>\<open>x && y\<close> read it.\<close>

fun truthy :: "jsval \<Rightarrow> bool" where
  "truthy JUndefined = False"
| "truthy JNull = False"
| "truthy (JBool b) = b"
| "truthy (JNum x) = (x \<noteq> 0)"
| "truthy (JStr s) = (s \<noteq> [])"
| "truthy (JArr xs) = True"
| "truthy (JObj kvs) = True"

fun typeof :: "jsval \<Rightarrow> string" where
  "typeof JUndefined = ''undefined''"
| "typeof JNull = ''object''"
| "typeof (JBool b) = ''boolean''"
| "typeof (JNum x) = ''number''"
| "typeof (JStr s) = ''string''"
| "typeof (JArr xs) = ''object''"
| "typeof (JObj kvs) = ''object''"

text \<open>
  The names every object literal inherits from \<^verbatim>\<open>Object.prototype\<close> in the runtime of
  the Edge Functions (ECMAScript, sections 20.1.3 and B.2.2.2 to B.2.2.5; Deno removes the
  accessor \<^verbatim>\<open>__proto__\<close> of section B.2.2.1 at start-up, so that name is not inherited).
  A lookup \<^verbatim>\<open>obj[key]\<close> finds them when the object has no property of its own under
  that key.
\<close>

definition object_prototype_keys :: "string list" where
  "object_prototype_keys =
     [''constructor'', ''hasOwnProperty'', ''isPrototypeOf'', ''propertyIsEnumerable'',
      ''toLocaleString'', ''toString'', ''valueOf'',
      ''__defineGetter__'', ''__defineSetter__'', ''__lookupGetter__'', ''__lookupSetter__'']"

datatype 'a js_property =
    Own 'a
  | Inherited
  | Absent

text \<open>\<^verbatim>\<open>table[key]\<close> on an object literal whose own properties are \<open>table\<close>.\<close>

definition js_index :: "(string \<times> 'a) list \<Rightarrow> string \<Rightarrow> 'a js_property" where
  "js_index table k =
     (case map_of table k of
        Some v \<Rightarrow> Own v
      | None \<Rightarrow> if k \<in> set object_prototype_keys then Inherited else Absent)"

section \<open>The database (migrations 0001 to 0005)\<close>

text \<open>
  \<^verbatim>\<open>projects\<close>, keyed by \<^verbatim>\<open>id\<close>; \<^verbatim>\<open>project_members\<close>, keyed by
  \<^verbatim>\<open>UNIQUE(project_id, user_id)\<close>; \<^verbatim>\<open>project_events\<close>, the append-only log;
  \<^verbatim>\<open>project_projections\<close>, keyed by \<^verbatim>\<open>project_id\<close>; \<^verbatim>\<open>ai_usage\<close>, the ledger;
  \<^verbatim>\<open>rate_limits\<close>, keyed by \<^verbatim>\<open>key TEXT NOT NULL UNIQUE\<close>. Surrogate ids and the
  \<^verbatim>\<open>updated_at\<close> columns, which nothing reads, are left out. A snapshot is a JSON
  object: the column starts as \<^verbatim>\<open>'{}'\<close> and only \<^verbatim>\<open>jsonb_set\<close> on a key writes it.
\<close>

record project_row =
  proj_name :: string
  proj_slug :: string
  proj_owner_id :: uuid

record event_row =
  ev_project_id :: uuid
  ev_actor_id :: uuid
  ev_seq :: int
  ev_type :: string
  ev_payload :: jsval

record projection_row =
  head_seq :: int
  snapshot :: "(string \<times> jsval) list"

datatype usage_status = StatusOk | StatusFailed

record usage_row =
  usage_user_id :: uuid
  usage_project_id :: "uuid option"
  usage_provider :: string
  usage_model :: string
  usage_tokens_in :: nat
  usage_tokens_out :: nat
  usage_cost_micro :: int
  usage_status :: usage_status
  usage_created_at :: timestamp

text \<open>
  The column \<^verbatim>\<open>cost_usd NUMERIC(10, 6) NOT NULL\<close>: a stored cost is a whole number of
  millionths of a dollar (\<open>usage_cost_micro\<close>), below \<open>10\<^sup>4\<close> dollars in absolute
  value, and \<open>usage_cost_usd\<close> is the value that a query reads. A value written to the
  column is rounded to six decimals, a tie away from zero, and it is refused with
  ``numeric field overflow'' when the rounded value does not fit the ten digits.
\<close>

definition usage_cost_usd :: "usage_row \<Rightarrow> real" where
  "usage_cost_usd r = real_of_int (usage_cost_micro r) / 1000000"

definition round_scale_6 :: "real \<Rightarrow> int" where
  "round_scale_6 c =
     (if 0 \<le> c then \<lfloor>c * 1000000 + 1 / 2\<rfloor> else - \<lfloor>- c * 1000000 + 1 / 2\<rfloor>)"

definition numeric_10_6 :: "real \<Rightarrow> int option" where
  "numeric_10_6 c =
     (if \<bar>round_scale_6 c\<bar> < 10000000000 then Some (round_scale_6 c) else None)"

record rate_limit_row =
  window_start :: timestamp
  rl_count :: int

record db =
  projects :: "uuid \<rightharpoonup> project_row"
  project_members :: "(uuid \<times> uuid) \<rightharpoonup> string"
  project_events :: "event_row list"
  project_projections :: "uuid \<rightharpoonup> projection_row"
  ai_usage :: "usage_row list"
  rate_limits :: "string \<rightharpoonup> rate_limit_row"

datatype sql_error =
    UnknownEventTypeRaised string
  | AmbiguousColumn string
  | UniqueViolation
  | NotNullViolation
  | NumericFieldOverflow
  | ForeignKeyViolation
  | DivisionByZero
  | BackendUnavailable

text \<open>
  What one request meets outside the database rows: the authentication service
  (\<^verbatim>\<open>supabase.auth.getUser\<close>, from a token to a user, an error or an exception); the
  clocks (\<open>env_now\<close> is \<^verbatim>\<open>now()\<close> in \<^verbatim>\<open>check_rate_limit\<close>, \<open>env_insert_time\<close>
  the default \<^verbatim>\<open>created_at\<close> of a ledger row, \<open>env_today\<close> the local midnight that
  \<^verbatim>\<open>checkBudget\<close> computes); Postgres's rendering of a JSON value that is not a string
  as text (the operator \<^verbatim>\<open>->>\<close>); and the calls to the backend that fail (\<open>True\<close>:
  the client returns \<^verbatim>\<open>{ data: null, error }\<close>).
\<close>

datatype auth_lookup = AuthUser uuid | AuthInvalid | AuthThrows

record env =
  env_get_user :: "string \<Rightarrow> auth_lookup"
  env_now :: timestamp
  env_insert_time :: timestamp
  env_today :: timestamp
  env_jsonb_text :: "jsval \<Rightarrow> string"
  fault_rate_limit :: bool
  fault_user_cost :: bool
  fault_project_cost :: bool
  fault_usage_insert :: bool
  fault_projection_read :: bool
  fault_apply :: bool

record http_request =
  req_method :: string
  req_authorization :: "string option"
  req_body :: "jsval option"

record 'b response =
  resp_status :: nat
  resp_body :: 'b
  resp_retry_after :: "int option"

definition respond :: "nat \<Rightarrow> 'b \<Rightarrow> 'b response" where
  "respond code b = \<lparr>resp_status = code, resp_body = b, resp_retry_after = None\<rparr>"

section \<open>Shared helpers of the Edge Functions\<close>

text \<open>\<^verbatim>\<open>_shared/auth.ts\<close>, \<^verbatim>\<open>verifyAuth\<close>: the user id and the error, if any.\<close>

definition verifyAuth :: "env \<Rightarrow> http_request \<Rightarrow> uuid \<times> string option" where
  "verifyAuth e req =
     (case req_authorization req of
        None \<Rightarrow> ([], Some ''Missing or invalid authorization header'')
      | Some authHeader \<Rightarrow>
          if take 7 authHeader \<noteq> ''Bearer ''
          then ([], Some ''Missing or invalid authorization header'')
          else (case env_get_user e (drop 7 authHeader) of
                  AuthUser uid \<Rightarrow> (uid, None)
                | AuthInvalid \<Rightarrow> ([], Some ''Invalid token'')
                | AuthThrows \<Rightarrow> ([], Some ''Authentication failed'')))"

subsection \<open>The rate limiter (\<^verbatim>\<open>check_rate_limit\<close> and \<^verbatim>\<open>_shared/rateLimit.ts\<close>)\<close>

definition RATE_LIMIT_WINDOW :: int where
  "RATE_LIMIT_WINDOW = 60"

definition RATE_LIMIT_MAX_REQUESTS :: int where
  "RATE_LIMIT_MAX_REQUESTS = 30"

text \<open>\<^verbatim>\<open>date_trunc('second', now())\<close>.\<close>

definition date_trunc_second :: "timestamp \<Rightarrow> timestamp" where
  "date_trunc_second t = t - t mod 1000000"

text \<open>
  \<^verbatim>\<open>EXTRACT(SECOND FROM now())::INTEGER\<close>. The seconds field carries the fraction
  (\<open>t mod 60000000\<close> microseconds), and the cast of a \<^verbatim>\<open>NUMERIC\<close> to
  \<^verbatim>\<open>INTEGER\<close> rounds to the nearest integer, halves away from zero.
\<close>

definition extract_second_integer :: "timestamp \<Rightarrow> int" where
  "extract_second_integer t = (t mod 60000000 + 500000) div 1000000"

text \<open>The first statement of \<^verbatim>\<open>check_rate_limit\<close>; \<^verbatim>\<open>%\<close> on a non-negative dividend.\<close>

definition compute_window_start :: "timestamp \<Rightarrow> int \<Rightarrow> timestamp" where
  "compute_window_start t p_window_seconds =
     date_trunc_second t - 1000000 * (extract_second_integer t mod \<bar>p_window_seconds\<bar>)"

definition check_rate_limit ::
  "db \<Rightarrow> timestamp \<Rightarrow> string \<Rightarrow> int \<Rightarrow> int \<Rightarrow> sql_error + (bool \<times> db)" where
  "check_rate_limit d t p_key p_window_seconds p_max_requests =
     (if p_window_seconds = 0 then Inl DivisionByZero
      else
        let v_window_start = compute_window_start t p_window_seconds;
            v_count = (case rate_limits d p_key of
                         None \<Rightarrow> None
                       | Some r \<Rightarrow> if window_start r = v_window_start
                                   then Some (rl_count r) else None)
        in case v_count of
             None \<Rightarrow>
               (case rate_limits d p_key of
                  None \<Rightarrow>
                    Inr (True, d\<lparr>rate_limits := (rate_limits d)
                           (p_key \<mapsto> \<lparr>window_start = v_window_start, rl_count = 1\<rparr>)\<rparr>)
                | Some r \<Rightarrow>
                    if window_start r < v_window_start
                    then Inr (True, d\<lparr>rate_limits := (rate_limits d)
                           (p_key \<mapsto> \<lparr>window_start = v_window_start, rl_count = 1\<rparr>)\<rparr>)
                    else Inr (True, d))
           | Some c \<Rightarrow>
               if c \<ge> p_max_requests then Inr (False, d)
               else Inr (True, d\<lparr>rate_limits := (rate_limits d)
                      (p_key \<mapsto> \<lparr>window_start = v_window_start, rl_count = c + 1\<rparr>)\<rparr>))"

record rate_result =
  rate_allowed :: bool
  retryAfter :: "int option"

text \<open>
  \<^verbatim>\<open>checkRateLimit\<close>: an error of the call fails open; the transaction of a failed
  call leaves the table as it was.
\<close>

definition checkRateLimit :: "env \<Rightarrow> db \<Rightarrow> uuid \<Rightarrow> rate_result \<times> db" where
  "checkRateLimit e d userId =
     (let key = ''ai_proxy:'' @ userId in
      if fault_rate_limit e then (\<lparr>rate_allowed = True, retryAfter = None\<rparr>, d)
      else case check_rate_limit d (env_now e) key RATE_LIMIT_WINDOW RATE_LIMIT_MAX_REQUESTS of
             Inl err \<Rightarrow> (\<lparr>rate_allowed = True, retryAfter = None\<rparr>, d)
           | Inr (ok, d') \<Rightarrow>
               if \<not> ok then (\<lparr>rate_allowed = False, retryAfter = Some RATE_LIMIT_WINDOW\<rparr>, d')
               else (\<lparr>rate_allowed = True, retryAfter = None\<rparr>, d'))"

text \<open>The 429 response of both endpoints; \<^verbatim>\<open>String(retryAfter || 60)\<close> is the header.\<close>

definition retry_after_header :: "int option \<Rightarrow> int" where
  "retry_after_header r = (case r of None \<Rightarrow> 60 | Some n \<Rightarrow> if n = 0 then 60 else n)"

section \<open>The metered AI call: cost\<close>

record pricing =
  input_price :: real
  output_price :: real

definition COST_PER_1K_TOKENS :: "(string \<times> pricing) list" where
  "COST_PER_1K_TOKENS =
     [(''gpt-4'', \<lparr>input_price = 0.03, output_price = 0.06\<rparr>),
      (''gpt-4-turbo'', \<lparr>input_price = 0.01, output_price = 0.03\<rparr>),
      (''gpt-3.5-turbo'', \<lparr>input_price = 0.0015, output_price = 0.002\<rparr>),
      (''claude-3-opus'', \<lparr>input_price = 0.015, output_price = 0.075\<rparr>),
      (''claude-3-sonnet'', \<lparr>input_price = 0.003, output_price = 0.015\<rparr>),
      (''claude-3-haiku'', \<lparr>input_price = 0.00025, output_price = 0.00125\<rparr>)]"

definition USER_DAILY_BUDGET :: real where
  "USER_DAILY_BUDGET = 10.00"

definition PROJECT_DAILY_BUDGET :: real where
  "PROJECT_DAILY_BUDGET = 5.00"

text \<open>
  \<^verbatim>\<open>COST_PER_1K_TOKENS[model] || COST_PER_1K_TOKENS['gpt-4']\<close>: the left operand when it
  is truthy (an entry of the table, or a member inherited from the prototype, which is a
  function or an object), the right operand when the left one is \<^verbatim>\<open>undefined\<close>.
\<close>

definition lookup_pricing :: "string \<Rightarrow> pricing js_property" where
  "lookup_pricing model =
     (case js_index COST_PER_1K_TOKENS model of
        Own p \<Rightarrow> Own p
      | Inherited \<Rightarrow> Inherited
      | Absent \<Rightarrow> js_index COST_PER_1K_TOKENS ''gpt-4'')"

text \<open>
  \<^verbatim>\<open>calculateCost\<close>. On an inherited member \<^verbatim>\<open>pricing.input\<close> and
  \<^verbatim>\<open>pricing.output\<close> are \<^verbatim>\<open>undefined\<close>, and both products are \<^verbatim>\<open>NaN\<close>.
\<close>

definition calculateCost :: "string \<Rightarrow> nat \<Rightarrow> nat \<Rightarrow> real option" where
  "calculateCost model tokensIn tokensOut =
     (case lookup_pricing model of
        Own pricing \<Rightarrow>
          (let inputCost = (real tokensIn / 1000) * input_price pricing;
               outputCost = (real tokensOut / 1000) * output_price pricing
           in Some (inputCost + outputCost))
      | Inherited \<Rightarrow> None
      | Absent \<Rightarrow> None)"

section \<open>The metered AI call: budget guard and ledger\<close>

text \<open>
  \<^verbatim>\<open>get_user_ai_cost\<close> and \<^verbatim>\<open>get_project_ai_cost\<close> (migration 0002):
  \<^verbatim>\<open>COALESCE(SUM(cost_usd), 0)\<close> over the rows of the principal (of the project) with
  \<^verbatim>\<open>status = 'ok'\<close> and \<^verbatim>\<open>since IS NULL OR created_at >= since\<close>.
\<close>

definition get_user_ai_cost :: "db \<Rightarrow> uuid \<Rightarrow> timestamp option \<Rightarrow> real" where
  "get_user_ai_cost d user_uuid since =
     sum_list (map usage_cost_usd
       (filter (\<lambda>r. usage_user_id r = user_uuid \<and> usage_status r = StatusOk \<and>
                     (case since of None \<Rightarrow> True | Some s \<Rightarrow> s \<le> usage_created_at r))
          (ai_usage d)))"

definition get_project_ai_cost :: "db \<Rightarrow> uuid \<Rightarrow> timestamp option \<Rightarrow> real" where
  "get_project_ai_cost d project_uuid since =
     sum_list (map usage_cost_usd
       (filter (\<lambda>r. usage_project_id r = Some project_uuid \<and> usage_status r = StatusOk \<and>
                     (case since of None \<Rightarrow> True | Some s \<Rightarrow> s \<le> usage_created_at r))
          (ai_usage d)))"

record budget_result =
  allowed :: bool
  reason :: "string option"

text \<open>
  \<^verbatim>\<open>checkBudget\<close>. \<open>userCost\<close> and \<open>projectCost\<close> are the \<^verbatim>\<open>data\<close> of the two
  calls, \<open>None\<close> (\<^verbatim>\<open>null\<close>) when the call fails. \<^verbatim>\<open>userCost && userCost >= cap\<close>
  needs a truthy number: neither \<^verbatim>\<open>null\<close> nor 0. \<^verbatim>\<open>if (projectId)\<close> needs a
  non-empty string.
\<close>

definition checkBudget :: "env \<Rightarrow> db \<Rightarrow> uuid \<Rightarrow> uuid option \<Rightarrow> budget_result" where
  "checkBudget e d userId projectId =
     (let userCost = (if fault_user_cost e then None
                      else Some (get_user_ai_cost d userId (Some (env_today e))))
      in if (case userCost of None \<Rightarrow> False
             | Some c \<Rightarrow> c \<noteq> 0 \<and> c \<ge> USER_DAILY_BUDGET)
         then \<lparr>allowed = False, reason = Some ''User daily budget exceeded''\<rparr>
         else
           (case projectId of
              None \<Rightarrow> \<lparr>allowed = True, reason = None\<rparr>
            | Some pid \<Rightarrow>
                if pid = [] then \<lparr>allowed = True, reason = None\<rparr>
                else
                  let projectCost = (if fault_project_cost e then None
                                     else Some (get_project_ai_cost d pid (Some (env_today e))))
                  in if (case projectCost of None \<Rightarrow> False
                         | Some c \<Rightarrow> c \<noteq> 0 \<and> c \<ge> PROJECT_DAILY_BUDGET)
                     then \<lparr>allowed = False, reason = Some ''Project daily budget exceeded''\<rparr>
                     else \<lparr>allowed = True, reason = None\<rparr>))"

text \<open>
  The insert of \<^verbatim>\<open>recordAIUsage\<close> into \<^verbatim>\<open>ai_usage\<close>. It fails when the backend
  does, when the cost is \<^verbatim>\<open>NaN\<close>, which JSON sends as \<^verbatim>\<open>null\<close> into a
  \<^verbatim>\<open>NOT NULL\<close> column, when the cost does not fit \<^verbatim>\<open>NUMERIC(10, 6)\<close>, and when
  \<^verbatim>\<open>project_id\<close> names no row of \<^verbatim>\<open>projects\<close> (the column
  \<^verbatim>\<open>REFERENCES projects(id)\<close>). The row holds the cost rounded to six decimals.
  \<^verbatim>\<open>projectId || null\<close> turns the empty string into \<^verbatim>\<open>null\<close>. The user id comes
  from the authentication service, so its own reference holds.
\<close>

definition insert_ai_usage ::
  "env \<Rightarrow> db \<Rightarrow> uuid \<Rightarrow> uuid option \<Rightarrow> string \<Rightarrow> string \<Rightarrow> nat \<Rightarrow> nat \<Rightarrow> real option \<Rightarrow>
     usage_status \<Rightarrow> sql_error + db" where
  "insert_ai_usage e d userId projectId provider model tokensIn tokensOut costUsd st =
     (let pid = (case projectId of None \<Rightarrow> None
                 | Some p \<Rightarrow> if p = [] then None else Some p)
      in if fault_usage_insert e then Inl BackendUnavailable
         else case costUsd of
           None \<Rightarrow> Inl NotNullViolation
         | Some c \<Rightarrow>
             (case numeric_10_6 c of
                None \<Rightarrow> Inl NumericFieldOverflow
              | Some cost_micro \<Rightarrow>
                  (case pid of
                     None \<Rightarrow>
                       Inr (d\<lparr>ai_usage := ai_usage d @
                          [\<lparr>usage_user_id = userId, usage_project_id = None,
                            usage_provider = provider, usage_model = model,
                            usage_tokens_in = tokensIn, usage_tokens_out = tokensOut,
                            usage_cost_micro = cost_micro, usage_status = st,
                            usage_created_at = env_insert_time e\<rparr>]\<rparr>)
                   | Some p \<Rightarrow>
                       if projects d p = None then Inl ForeignKeyViolation
                       else
                         Inr (d\<lparr>ai_usage := ai_usage d @
                            [\<lparr>usage_user_id = userId, usage_project_id = Some p,
                              usage_provider = provider, usage_model = model,
                              usage_tokens_in = tokensIn, usage_tokens_out = tokensOut,
                              usage_cost_micro = cost_micro, usage_status = st,
                              usage_created_at = env_insert_time e\<rparr>]\<rparr>))))"

text \<open>
  \<^verbatim>\<open>recordAIUsage\<close>: the error of the insert is logged and dropped, and the caller goes
  on with the ledger as it was.
\<close>

definition recordAIUsage ::
  "env \<Rightarrow> db \<Rightarrow> uuid \<Rightarrow> uuid option \<Rightarrow> string \<Rightarrow> string \<Rightarrow> nat \<Rightarrow> nat \<Rightarrow> real option \<Rightarrow>
     usage_status \<Rightarrow> db" where
  "recordAIUsage e d userId projectId provider model tokensIn tokensOut costUsd st =
     (case insert_ai_usage e d userId projectId provider model tokensIn tokensOut costUsd st of
        Inl err \<Rightarrow> d
      | Inr d' \<Rightarrow> d')"

section \<open>The metered AI call: request and handler\<close>

record ai_request =
  rq_project_id :: "uuid option"
  rq_prompt :: string
  rq_provider :: string
  rq_model :: string

definition is_hex_digit :: "char \<Rightarrow> bool" where
  "is_hex_digit c = (c \<in> set ''0123456789abcdefABCDEF'')"

text \<open>\<^verbatim>\<open>z.string().uuid()\<close>: 8-4-4-4-12 hexadecimal digits.\<close>

definition is_uuid :: "string \<Rightarrow> bool" where
  "is_uuid s =
     (length s = 36 \<and>
      list_all is_hex_digit (take 8 s) \<and> take 1 (drop 8 s) = ''-'' \<and>
      list_all is_hex_digit (take 4 (drop 9 s)) \<and> take 1 (drop 13 s) = ''-'' \<and>
      list_all is_hex_digit (take 4 (drop 14 s)) \<and> take 1 (drop 18 s) = ''-'' \<and>
      list_all is_hex_digit (take 4 (drop 19 s)) \<and> take 1 (drop 23 s) = ''-'' \<and>
      list_all is_hex_digit (drop 24 s))"

text \<open>A property of a parsed JSON object; \<^verbatim>\<open>undefined\<close> when the key is missing.\<close>

definition js_field :: "(string \<times> jsval) list \<Rightarrow> string \<Rightarrow> jsval" where
  "js_field kvs k = (case map_of kvs k of None \<Rightarrow> JUndefined | Some v \<Rightarrow> v)"

definition ai_providers :: "string list" where
  "ai_providers = [''openai'', ''anthropic'', ''gemini'', ''groq'', ''mistral'']"

text \<open>\<^verbatim>\<open>RequestSchema.safeParse\<close> of the AI proxy; \<open>None\<close> when the parse fails.\<close>

definition parse_project_id :: "jsval \<Rightarrow> uuid option option" where
  "parse_project_id v =
     (case v of
        JUndefined \<Rightarrow> Some None
      | JStr s \<Rightarrow> if is_uuid s then Some (Some s) else None
      | _ \<Rightarrow> None)"

definition parse_prompt :: "jsval \<Rightarrow> string option" where
  "parse_prompt v =
     (case v of
        JStr s \<Rightarrow> if 1 \<le> length s \<and> length s \<le> 10000 then Some s else None
      | _ \<Rightarrow> None)"

definition parse_provider :: "jsval \<Rightarrow> string option" where
  "parse_provider v =
     (case v of
        JUndefined \<Rightarrow> Some ''openai''
      | JStr s \<Rightarrow> if s \<in> set ai_providers then Some s else None
      | _ \<Rightarrow> None)"

definition parse_model :: "jsval \<Rightarrow> string option" where
  "parse_model v =
     (case v of
        JUndefined \<Rightarrow> Some ''gpt-4''
      | JStr s \<Rightarrow> Some s
      | _ \<Rightarrow> None)"

definition AiRequestSchema :: "jsval \<Rightarrow> ai_request option" where
  "AiRequestSchema body =
     (case body of
        JObj kvs \<Rightarrow>
          (case (parse_project_id (js_field kvs ''project_id''),
                 parse_prompt (js_field kvs ''prompt''),
                 parse_provider (js_field kvs ''provider''),
                 parse_model (js_field kvs ''model'')) of
             (Some pid, Some prompt, Some provider, Some model) \<Rightarrow>
               Some \<lparr>rq_project_id = pid, rq_prompt = prompt,
                     rq_provider = provider, rq_model = model\<rparr>
           | _ \<Rightarrow> None)
      | _ \<Rightarrow> None)"

record ai_result =
  ai_text :: string
  tokensIn :: nat
  tokensOut :: nat

text \<open>
  The provider capability: \<open>Inl\<close> is the message of the error it throws.
  \<^verbatim>\<open>callAIProvider\<close> is the mock of the source, which never throws; the handler
  takes the capability as an argument, so that its \<^verbatim>\<open>catch\<close> is a branch of the model.
\<close>

type_synonym ai_provider = "string \<Rightarrow> string \<Rightarrow> string \<Rightarrow> string + ai_result"

definition callAIProvider :: ai_provider where
  "callAIProvider provider model prompt =
     (let mockResponse = ''Mock AI response for: '' @ [CHR 0x22] @ take 50 prompt @ ''...''
                           @ [CHR 0x22]
      in Inr \<lparr>ai_text = mockResponse,
              tokensIn = (length prompt + 3) div 4,
              tokensOut = (length mockResponse + 3) div 4\<rparr>)"

datatype ai_body =
    AiPreflight
  | AiError string
  | AiRateLimit "int option"
  | AiInvalid
  | AiSuccess string nat nat "real option"

definition ai_proxy_serve ::
  "ai_provider \<Rightarrow> env \<Rightarrow> db \<Rightarrow> http_request \<Rightarrow> ai_body response \<times> db" where
  "ai_proxy_serve callAI e d req =
     (if req_method req = ''OPTIONS'' then (respond 200 AiPreflight, d)
      else if req_method req \<noteq> ''POST'' then (respond 405 (AiError ''Method not allowed''), d)
      else
        case verifyAuth e req of (userId, authError) \<Rightarrow>
        if authError \<noteq> None \<or> userId = []
        then (respond 401 (AiError (case authError of Some m \<Rightarrow> if m = [] then ''Unauthorized'' else m
                                     | None \<Rightarrow> ''Unauthorized'')), d)
        else
          case checkRateLimit e d userId of (rate, d1) \<Rightarrow>
          if \<not> rate_allowed rate
          then (\<lparr>resp_status = 429, resp_body = AiRateLimit (retryAfter rate),
                  resp_retry_after = Some (retry_after_header (retryAfter rate))\<rparr>, d1)
          else
            (case req_body req of
               None \<Rightarrow> (respond 400 (AiError ''Invalid JSON body''), d1)
             | Some body \<Rightarrow>
                 (case AiRequestSchema body of
                    None \<Rightarrow> (respond 400 AiInvalid, d1)
                  | Some rq \<Rightarrow>
                      let budget = checkBudget e d1 userId (rq_project_id rq) in
                      if \<not> allowed budget
                      then
                        (respond 402
                           (AiError (case reason budget of
                                       Some m \<Rightarrow> if m = [] then ''Budget exceeded'' else m
                                     | None \<Rightarrow> ''Budget exceeded'')),
                         recordAIUsage e d1 userId (rq_project_id rq) (rq_provider rq)
                           (rq_model rq) 0 0 (Some 0) StatusFailed)
                      else
                        (case callAI (rq_provider rq) (rq_model rq) (rq_prompt rq) of
                           Inl errorMessage \<Rightarrow>
                             (respond 502 (AiError errorMessage),
                              recordAIUsage e d1 userId (rq_project_id rq) (rq_provider rq)
                                (rq_model rq) 0 0 (Some 0) StatusFailed)
                         | Inr aiResult \<Rightarrow>
                             let costUsd = calculateCost (rq_model rq) (tokensIn aiResult)
                                             (tokensOut aiResult)
                             in (respond 200
                                   (AiSuccess (ai_text aiResult) (tokensIn aiResult)
                                      (tokensOut aiResult) costUsd),
                                 recordAIUsage e d1 userId (rq_project_id rq) (rq_provider rq)
                                   (rq_model rq) (tokensIn aiResult) (tokensOut aiResult)
                                   costUsd StatusOk)))))"

section \<open>The reducer (\<^verbatim>\<open>src/state/reducer.ts\<close>, \<^verbatim>\<open>src/state/types.ts\<close>)\<close>

text \<open>What a function throws: \<^verbatim>\<open>new Error(message)\<close>, or the runtime's \<^verbatim>\<open>TypeError\<close>.\<close>

datatype js_error = Error string | TypeError

text \<open>
  \<^verbatim>\<open>v[key]\<close> for the keys the reducer reads (\<^verbatim>\<open>type\<close>, \<^verbatim>\<open>payload\<close>, \<^verbatim>\<open>name\<close>), none
  of which a built-in prototype defines: reading a property of \<^verbatim>\<open>undefined\<close> or
  \<^verbatim>\<open>null\<close> throws, an object gives its own property, any other value gives
  \<^verbatim>\<open>undefined\<close>.
\<close>

fun js_get :: "jsval \<Rightarrow> string \<Rightarrow> js_error + jsval" where
  "js_get JUndefined k = Inl TypeError"
| "js_get JNull k = Inl TypeError"
| "js_get (JObj kvs) k = Inr (js_field kvs k)"
| "js_get v k = Inr JUndefined"

definition VALID_EVENT_TYPES :: "string list" where
  "VALID_EVENT_TYPES = [''project.rename'']"

definition isProjectRenameEvent :: "jsval \<Rightarrow> bool" where
  "isProjectRenameEvent event = (js_get event ''type'' = Inr (JStr ''project.rename''))"

text \<open>\<^verbatim>\<open>{ ...snapshot, name }\<close> is \<open>AList.update ''name''\<close> on the snapshot's properties.\<close>

definition applyRenameEvent ::
  "(string \<times> jsval) list \<Rightarrow> jsval \<Rightarrow> js_error + (string \<times> jsval) list" where
  "applyRenameEvent snap event =
     (if \<not> isProjectRenameEvent event
      then Inl (Error ''Invalid project.rename event structure'')
      else
        case js_get event ''payload'' of
          Inl err \<Rightarrow> Inl err
        | Inr payload \<Rightarrow>
            (case js_get payload ''name'' of
               Inl err \<Rightarrow> Inl err
             | Inr name \<Rightarrow>
                 (case name of
                    JStr n \<Rightarrow>
                      if length n = 0
                      then Inl (Error ''Invalid project.rename payload: name cannot be empty'')
                      else if length n > 200
                      then Inl (Error
                        ''Invalid project.rename payload: name exceeds maximum length of 200'')
                      else Inr (AList.update ''name'' (JStr n) snap)
                  | _ \<Rightarrow>
                      Inl (Error ''Invalid project.rename payload: name must be a string''))))"

definition applyEvent ::
  "(string \<times> jsval) list \<Rightarrow> jsval \<Rightarrow> js_error + (string \<times> jsval) list" where
  "applyEvent snap event =
     (if \<not> truthy event \<or> typeof event \<noteq> ''object''
      then Inl (Error ''Invalid event: must be an object'')
      else
        case js_get event ''type'' of
          Inl err \<Rightarrow> Inl err
        | Inr ty \<Rightarrow>
            if \<not> truthy ty \<or> typeof ty \<noteq> ''string''
            then Inl (Error ''Invalid event: must have a type string'')
            else
              (case ty of
                 JStr s \<Rightarrow>
                   if s = ''project.rename'' then applyRenameEvent snap event
                   else Inl (Error (''Unknown event type: '' @ s))
               | _ \<Rightarrow> Inl (Error ''Invalid event: must have a type string'')))"

text \<open>\<^verbatim>\<open>applyEvents\<close>: \<^verbatim>\<open>reduce\<close> from the left; the first throw ends it.\<close>

fun applyEvents ::
  "jsval list \<Rightarrow> (string \<times> jsval) list \<Rightarrow> js_error + (string \<times> jsval) list" where
  "applyEvents [] initialSnapshot = Inr initialSnapshot"
| "applyEvents (event # events) initialSnapshot =
     (case applyEvent initialSnapshot event of
        Inl err \<Rightarrow> Inl err
      | Inr s \<Rightarrow> applyEvents events s)"

definition createInitialSnapshot :: "(string \<times> jsval) list" where
  "createInitialSnapshot = []"

text \<open>The two families of messages, by their text.\<close>

definition is_unknown_event_type :: "js_error \<Rightarrow> bool" where
  "is_unknown_event_type err =
     (case err of Error m \<Rightarrow> take 20 m = ''Unknown event type: '' | TypeError \<Rightarrow> False)"

definition is_invalid_payload :: "js_error \<Rightarrow> bool" where
  "is_invalid_payload err =
     (case err of
        Error m \<Rightarrow> take 32 m = ''Invalid project.rename payload: ''
      | TypeError \<Rightarrow> False)"

section \<open>The commit path (\<^verbatim>\<open>mutate/index.ts\<close> and \<^verbatim>\<open>apply_project_event\<close>)\<close>

record proposal =
  prop_type :: string
  prop_name :: string

record mutate_request =
  mq_projectId :: uuid
  mq_baseSeq :: "int option"
  mq_proposal :: proposal
  mq_idempotencyKey :: "string option"

text \<open>\<^verbatim>\<open>ProposalSchema\<close>: the literal type and a name of 1 to 200 characters.\<close>

definition ProposalSchema :: "jsval \<Rightarrow> proposal option" where
  "ProposalSchema v =
     (case v of
        JObj kvs \<Rightarrow>
          (case (js_field kvs ''type'', js_field kvs ''payload'') of
             (JStr ty, JObj pkvs) \<Rightarrow>
               (case js_field pkvs ''name'' of
                  JStr n \<Rightarrow>
                    if ty = ''project.rename'' \<and> 1 \<le> length n \<and> length n \<le> 200
                    then Some \<lparr>prop_type = ty, prop_name = n\<rparr>
                    else None
                | _ \<Rightarrow> None)
           | _ \<Rightarrow> None)
      | _ \<Rightarrow> None)"

text \<open>\<^verbatim>\<open>z.number().int().min(0).optional()\<close>.\<close>

definition parse_baseSeq :: "jsval \<Rightarrow> int option option" where
  "parse_baseSeq v =
     (case v of
        JUndefined \<Rightarrow> Some None
      | JNum x \<Rightarrow> if x = real_of_int \<lfloor>x\<rfloor> \<and> 0 \<le> x then Some (Some \<lfloor>x\<rfloor>) else None
      | _ \<Rightarrow> None)"

definition parse_projectId :: "jsval \<Rightarrow> uuid option" where
  "parse_projectId v = (case v of JStr s \<Rightarrow> if is_uuid s then Some s else None | _ \<Rightarrow> None)"

definition parse_idempotencyKey :: "jsval \<Rightarrow> string option option" where
  "parse_idempotencyKey v =
     (case v of JUndefined \<Rightarrow> Some None | JStr s \<Rightarrow> Some (Some s) | _ \<Rightarrow> None)"

definition MutateRequestSchema :: "jsval \<Rightarrow> mutate_request option" where
  "MutateRequestSchema body =
     (case body of
        JObj kvs \<Rightarrow>
          (case (parse_projectId (js_field kvs ''projectId''),
                 parse_baseSeq (js_field kvs ''baseSeq''),
                 ProposalSchema (js_field kvs ''proposal''),
                 parse_idempotencyKey (js_field kvs ''idempotencyKey'')) of
             (Some pid, Some base, Some prop, Some key) \<Rightarrow>
               Some \<lparr>mq_projectId = pid, mq_baseSeq = base, mq_proposal = prop,
                     mq_idempotencyKey = key\<rparr>
           | _ \<Rightarrow> None)
      | _ \<Rightarrow> None)"

text \<open>
  \<^verbatim>\<open>p_payload->>'name'\<close>: \<^verbatim>\<open>NULL\<close> when the payload is no object, has no such key or
  holds JSON \<^verbatim>\<open>null\<close> there; a string as it is; any other value as its text.
\<close>

definition jsonb_field_text :: "(jsval \<Rightarrow> string) \<Rightarrow> jsval \<Rightarrow> string \<Rightarrow> string option" where
  "jsonb_field_text render payload k =
     (case payload of
        JObj kvs \<Rightarrow>
          (case map_of kvs k of
             None \<Rightarrow> None
           | Some JNull \<Rightarrow> None
           | Some JUndefined \<Rightarrow> None
           | Some (JStr s) \<Rightarrow> Some s
           | Some v \<Rightarrow> Some (render v))
      | _ \<Rightarrow> None)"

text \<open>
  Name resolution in a query of a PL/pgSQL function. The parameters, the columns of
  \<^verbatim>\<open>RETURNS TABLE\<close> (they are \<^verbatim>\<open>OUT\<close> parameters) and the declared variables are the
  variables of the function. A bare name in an expression of a query that is both a
  variable and a column of the table of the query is rejected when the query is first
  run, with SQLSTATE 42702, ``column reference is ambiguous'': this is the default
  \<^verbatim>\<open>plpgsql.variable_conflict = error\<close>, and neither the function nor a migration
  sets another. The target columns of \<^verbatim>\<open>INSERT\<close> and of \<^verbatim>\<open>UPDATE ... SET\<close> are no
  expressions and are not resolved this way.
\<close>

definition ambiguous_reference :: "string list \<Rightarrow> string list \<Rightarrow> string list \<Rightarrow> string option" where
  "ambiguous_reference variables columns names =
     (case filter (\<lambda>n. n \<in> set variables \<and> n \<in> set columns) names of
        [] \<Rightarrow> None
      | n # rest \<Rightarrow> Some n)"

text \<open>
  The variables of \<^verbatim>\<open>apply_project_event\<close>: its four parameters, the two columns of
  \<^verbatim>\<open>RETURNS TABLE(seq BIGINT, snapshot JSONB)\<close> and the four names of \<^verbatim>\<open>DECLARE\<close>; and
  the columns of \<^verbatim>\<open>project_projections\<close>.
\<close>

definition apply_project_event_variables :: "string list" where
  "apply_project_event_variables =
     [''p_project_id'', ''p_actor_id'', ''p_type'', ''p_payload'', ''seq'', ''snapshot'',
      ''v_head_seq'', ''v_current_snapshot'', ''v_next_seq'', ''v_new_snapshot'']"

definition project_projections_columns :: "string list" where
  "project_projections_columns = [''project_id'', ''head_seq'', ''snapshot'', ''updated_at'']"

text \<open>
  The first statement of the body,
  \<^verbatim>\<open>SELECT head_seq, snapshot INTO v_head_seq, v_current_snapshot FROM project_projections
  WHERE project_id = p_project_id FOR UPDATE\<close>: the names of its expressions are resolved,
  then the row of the project is read, if there is one.
\<close>

definition select_projection_for_update :: "db \<Rightarrow> uuid \<Rightarrow> sql_error + projection_row option" where
  "select_projection_for_update d p_project_id =
     (case ambiguous_reference apply_project_event_variables project_projections_columns
             [''head_seq'', ''snapshot'', ''project_id'', ''p_project_id''] of
        Some n \<Rightarrow> Inl (AmbiguousColumn n)
      | None \<Rightarrow> Inr (project_projections d p_project_id))"

text \<open>
  The body of \<^verbatim>\<open>apply_project_event\<close>, statement by statement. An exception is
  \<open>Inl\<close>: the first statement as above, the insert of the projection row needs its
  project (\<^verbatim>\<open>REFERENCES projects(id)\<close>), the \<^verbatim>\<open>CASE\<close> raises on any other type, the
  insert of the event needs a new \<^verbatim>\<open>(project_id, seq)\<close> and its project, and the update
  needs a snapshot that is not \<^verbatim>\<open>NULL\<close> (\<^verbatim>\<open>jsonb_set\<close> is strict: a \<^verbatim>\<open>NULL\<close> name
  gives \<^verbatim>\<open>NULL\<close>). The later statements have no name that is both a variable and a
  column in an expression. The result is the table that \<^verbatim>\<open>RETURN QUERY\<close> builds, of
  one row.
\<close>

definition apply_project_event ::
  "env \<Rightarrow> db \<Rightarrow> uuid \<Rightarrow> uuid \<Rightarrow> string \<Rightarrow> jsval \<Rightarrow>
     sql_error + ((int \<times> (string \<times> jsval) list) list \<times> db)" where
  "apply_project_event e d p_project_id p_actor_id p_type p_payload =
     (case select_projection_for_update d p_project_id of
        Inl err \<Rightarrow> Inl err
      | Inr found \<Rightarrow>
     (case (case found of
              Some row \<Rightarrow> Inr (head_seq row, snapshot row, d)
            | None \<Rightarrow>
                if projects d p_project_id = None then Inl ForeignKeyViolation
                else Inr (0, [], d\<lparr>project_projections := (project_projections d)
                            (p_project_id \<mapsto> \<lparr>head_seq = 0, snapshot = []\<rparr>)\<rparr>)) of
        Inl err \<Rightarrow> Inl err
      | Inr (v_head_seq, v_current_snapshot, d1) \<Rightarrow>
          let v_next_seq = v_head_seq + 1 in
          if p_type = ''project.rename''
          then
            let v_new_snapshot =
                  (case jsonb_field_text (env_jsonb_text e) p_payload ''name'' of
                     None \<Rightarrow> None
                   | Some t \<Rightarrow> Some (AList.update ''name'' (JStr t) v_current_snapshot))
            in if list_ex (\<lambda>ev. ev_project_id ev = p_project_id \<and> ev_seq ev = v_next_seq)
                    (project_events d1)
               then Inl UniqueViolation
               else if projects d1 p_project_id = None then Inl ForeignKeyViolation
               else
                 (case v_new_snapshot of
                    None \<Rightarrow> Inl NotNullViolation
                  | Some v_snap \<Rightarrow>
                      Inr ([(v_next_seq, v_snap)],
                           d1\<lparr>project_events := project_events d1 @
                                 [\<lparr>ev_project_id = p_project_id, ev_actor_id = p_actor_id,
                                   ev_seq = v_next_seq, ev_type = p_type,
                                   ev_payload = p_payload\<rparr>],
                               project_projections := (project_projections d1)
                                 (p_project_id \<mapsto>
                                    \<lparr>head_seq = v_next_seq, snapshot = v_snap\<rparr>)\<rparr>))
          else Inl (UnknownEventTypeRaised p_type)))"

text \<open>
  \<^verbatim>\<open>supabase.rpc('apply_project_event', ...)\<close>. The function runs in one transaction:
  an exception undoes every statement of the body, the insert of the projection row
  included, and the caller sees the error. For a function that returns a table, the
  \<^verbatim>\<open>data\<close> of the client is the array of its rows.
\<close>

definition rpc_apply_project_event ::
  "env \<Rightarrow> db \<Rightarrow> uuid \<Rightarrow> uuid \<Rightarrow> string \<Rightarrow> jsval \<Rightarrow>
     (sql_error + (int \<times> (string \<times> jsval) list) list) \<times> db" where
  "rpc_apply_project_event e d p_project_id p_actor_id p_type p_payload =
     (if fault_apply e then (Inl BackendUnavailable, d)
      else case apply_project_event e d p_project_id p_actor_id p_type p_payload of
             Inl err \<Rightarrow> (Inl err, d)
           | Inr (rows, d') \<Rightarrow> (Inr rows, d'))"

datatype mutate_body =
    MuPreflight
  | MuError string
  | MuRateLimit "int option"
  | MuInvalid
  | MuConflict int int
  | MuApplyFailed sql_error
  | MuCommitted uuid "int option" "(string \<times> jsval) list option" "string option"

text \<open>
  The handler of \<^verbatim>\<open>mutate/index.ts\<close>, in two parts: \<open>mutate_commit\<close> is the handler
  from the membership check to the response, for a verified user and a parsed request;
  \<open>mutate_serve\<close> is the handler up to there. \<open>MuConflict expected current\<close> is the
  409 body; \<open>MuApplyFailed\<close> the 500 body ``Failed to apply event'' with the error of
  the call as its details; \<open>MuCommitted projectId seq snapshot idempotencyKey\<close> the
  200 body. There \<^verbatim>\<open>result as ApplyEventResult\<close> is a cast of the type checker only:
  \<^verbatim>\<open>result\<close> is the array of rows, \<^verbatim>\<open>applyResult.seq\<close> and \<^verbatim>\<open>applyResult.snapshot\<close>
  are properties that an array does not have, so both are \<^verbatim>\<open>undefined\<close> (\<open>None\<close>) and
  \<^verbatim>\<open>JSON.stringify\<close> leaves them out of the body. An error of the projection read other
  than ``not found'' is thrown and answered 500.
\<close>

definition mutate_commit ::
  "env \<Rightarrow> db \<Rightarrow> uuid \<Rightarrow> mutate_request \<Rightarrow> mutate_body response \<times> db" where
  "mutate_commit e d1 userId rq =
     (let projectId = mq_projectId rq;
          membership = project_members d1 (projectId, userId);
          isOwner = (case projects d1 projectId of
                       None \<Rightarrow> False
                     | Some project \<Rightarrow> proj_owner_id project = userId);
          isMember = (case membership of
                        None \<Rightarrow> False
                      | Some role \<Rightarrow> role \<in> set [''editor'', ''viewer''])
      in if \<not> isOwner \<and> \<not> isMember
         then (respond 403 (MuError ''Forbidden: Not a project member''), d1)
         else if membership = Some ''viewer'' \<and> \<not> isOwner
         then (respond 403 (MuError ''Forbidden: Viewers cannot modify projects''), d1)
         else if mq_baseSeq rq \<noteq> None \<and> fault_projection_read e
         then (respond 500 (MuError ''Internal server error''), d1)
         else if mq_baseSeq rq \<noteq> None \<and>
                 (case project_projections d1 projectId of
                    None \<Rightarrow> 0
                  | Some projection \<Rightarrow> head_seq projection) \<noteq> the (mq_baseSeq rq)
         then (respond 409
                 (MuConflict (the (mq_baseSeq rq))
                    (case project_projections d1 projectId of
                       None \<Rightarrow> 0
                     | Some projection \<Rightarrow> head_seq projection)), d1)
         else
           (case rpc_apply_project_event e d1 projectId userId
                   (prop_type (mq_proposal rq))
                   (JObj [(''name'', JStr (prop_name (mq_proposal rq)))]) of
              (Inl applyError, d2) \<Rightarrow> (respond 500 (MuApplyFailed applyError), d2)
            | (Inr applyResult, d2) \<Rightarrow>
                (respond 200
                   (MuCommitted projectId None None
                      (case mq_idempotencyKey rq of
                         None \<Rightarrow> None
                       | Some k \<Rightarrow> if k = [] then None else Some k)),
                 d2)))"

definition mutate_serve :: "env \<Rightarrow> db \<Rightarrow> http_request \<Rightarrow> mutate_body response \<times> db" where
  "mutate_serve e d req =
     (if req_method req = ''OPTIONS'' then (respond 200 MuPreflight, d)
      else if req_method req \<noteq> ''POST'' then (respond 405 (MuError ''Method not allowed''), d)
      else
        case verifyAuth e req of (userId, authError) \<Rightarrow>
        if authError \<noteq> None \<or> userId = []
        then (respond 401 (MuError (case authError of Some m \<Rightarrow> if m = [] then ''Unauthorized'' else m
                                     | None \<Rightarrow> ''Unauthorized'')), d)
        else
          case checkRateLimit e d userId of (rate, d1) \<Rightarrow>
          if \<not> rate_allowed rate
          then (\<lparr>resp_status = 429, resp_body = MuRateLimit (retryAfter rate),
                  resp_retry_after = Some (retry_after_header (retryAfter rate))\<rparr>, d1)
          else
            (case req_body req of
               None \<Rightarrow> (respond 400 (MuError ''Invalid JSON body''), d1)
             | Some body \<Rightarrow>
                 (case MutateRequestSchema body of
                    None \<Rightarrow> (respond 400 MuInvalid, d1)
                  | Some rq \<Rightarrow> mutate_commit e d1 userId rq)))"

text \<open>The head of a project: \<^verbatim>\<open>projection?.head_seq ?? 0\<close>.\<close>

definition head_of :: "db \<Rightarrow> uuid \<Rightarrow> int" where
  "head_of d pid = (case project_projections d pid of None \<Rightarrow> 0 | Some r \<Rightarrow> head_seq r)"

section \<open>Requests in sequence\<close>

text \<open>The rate limiter called once per time of \<open>ts\<close>, in order, for one principal.\<close>

fun checkRateLimit_seq :: "env \<Rightarrow> db \<Rightarrow> uuid \<Rightarrow> timestamp list \<Rightarrow> rate_result list \<times> db" where
  "checkRateLimit_seq e d u [] = ([], d)"
| "checkRateLimit_seq e d u (t # ts) =
     (case checkRateLimit (e\<lparr>env_now := t\<rparr>) d u of
        (r, d1) \<Rightarrow> (case checkRateLimit_seq e d1 u ts of (rs, d2) \<Rightarrow> (r # rs, d2)))"

section \<open>Example states and requests\<close>

text \<open>
  Concrete inputs, on which the theorems below are instantiated: an environment with no
  failing call whose authentication service knows one token, the empty database, a
  ledger row, and a \<^verbatim>\<open>POST\<close> of a body with that token.
\<close>

definition example_env :: env where
  "example_env =
     \<lparr>env_get_user = (\<lambda>t. if t = ''token-alice'' then AuthUser ''alice'' else AuthInvalid),
      env_now = 0, env_insert_time = 0, env_today = 0, env_jsonb_text = (\<lambda>v. []),
      fault_rate_limit = False, fault_user_cost = False, fault_project_cost = False,
      fault_usage_insert = False, fault_projection_read = False, fault_apply = False\<rparr>"

definition empty_db :: db where
  "empty_db = \<lparr>projects = Map.empty, project_members = Map.empty, project_events = [],
      project_projections = Map.empty, ai_usage = [], rate_limits = Map.empty\<rparr>"

definition example_usage :: "uuid \<Rightarrow> real \<Rightarrow> usage_status \<Rightarrow> usage_row" where
  "example_usage u c st =
     \<lparr>usage_user_id = u, usage_project_id = None, usage_provider = ''openai'',
      usage_model = ''gpt-4'', usage_tokens_in = 0, usage_tokens_out = 0,
      usage_cost_micro = round_scale_6 c, usage_status = st, usage_created_at = 0\<rparr>"

definition example_request :: "jsval \<Rightarrow> http_request" where
  "example_request body =
     \<lparr>req_method = ''POST'', req_authorization = Some ''Bearer token-alice'',
      req_body = Some body\<rparr>"

text \<open>
  A project owned by the one known user, with five events in its log and the projection
  at head 5, and a rename request for it, with or without \<^verbatim>\<open>baseSeq\<close>.
\<close>

definition example_project :: uuid where
  "example_project = ''00000000-0000-0000-0000-0000000000a1''"

definition example_event :: "int \<Rightarrow> event_row" where
  "example_event n =
     \<lparr>ev_project_id = example_project, ev_actor_id = ''alice'', ev_seq = n,
      ev_type = ''project.rename'', ev_payload = JObj [(''name'', JStr ''Draft'')]\<rparr>"

definition example_db_at_5 :: db where
  "example_db_at_5 =
     empty_db\<lparr>projects := [example_project \<mapsto>
                  \<lparr>proj_name = ''Site'', proj_slug = ''site'', proj_owner_id = ''alice''\<rparr>],
               project_events := map example_event [1, 2, 3, 4, 5],
               project_projections := [example_project \<mapsto>
                  \<lparr>head_seq = 5, snapshot = [(''name'', JStr ''Draft'')]\<rparr>]\<rparr>"

definition rename_request :: "int option \<Rightarrow> string \<Rightarrow> http_request" where
  "rename_request base name =
     example_request (JObj
       ([(''projectId'', JStr example_project),
         (''proposal'', JObj [(''type'', JStr ''project.rename''),
                             (''payload'', JObj [(''name'', JStr name)])])] @
        (case base of None \<Rightarrow> [] | Some b \<Rightarrow> [(''baseSeq'', JNum (real_of_int b))])))"

section \<open>Properties of the cost computation\<close>

lemma lookup_pricing_table:
  "map_of COST_PER_1K_TOKENS model = Some p \<Longrightarrow> lookup_pricing model = Own p"
  by (simp add: lookup_pricing_def js_index_def)

lemma lookup_pricing_fallback:
  assumes "map_of COST_PER_1K_TOKENS model = None" and "model \<notin> set object_prototype_keys"
  shows "lookup_pricing model = Own \<lparr>input_price = 0.03, output_price = 0.06\<rparr>"
  using assms by (simp add: lookup_pricing_def js_index_def) (simp add: COST_PER_1K_TOKENS_def)

lemma calculateCost_formula:
  assumes "lookup_pricing model = Own p"
  shows "calculateCost model tin tout =
           Some ((real tin / 1000) * input_price p + (real tout / 1000) * output_price p)"
  using assms by (simp add: calculateCost_def)

lemma calculateCost_gpt4_example: "calculateCost ''gpt-4'' 1000 500 = Some 0.06"
  by (simp add: calculateCost_def lookup_pricing_def js_index_def COST_PER_1K_TOKENS_def)

lemma calculateCost_unknown_model_example:
  "calculateCost ''unknown-model'' 1000 500 = Some 0.06"
  by (simp add: calculateCost_def lookup_pricing_def js_index_def COST_PER_1K_TOKENS_def
      object_prototype_keys_def)

text \<open>
  C8 (the cost formula with the fall-back to gpt-4 for every model absent from the
  table). The model name \<^verbatim>\<open>constructor\<close> is absent from the table, yet the lookup does
  not fall back: it finds the inherited member, and the cost is \<^verbatim>\<open>NaN\<close> instead of the
  gpt-4 price 0.06.
\<close>

theorem C8_calculateCost_inherited_key:
  "map_of COST_PER_1K_TOKENS ''constructor'' = None \<and>
   calculateCost ''constructor'' 1000 500 = None \<and>
   calculateCost ''gpt-4'' 1000 500 = Some 0.06"
  by (simp add: calculateCost_def lookup_pricing_def js_index_def COST_PER_1K_TOKENS_def
      object_prototype_keys_def)

theorem C8_calculateCost_inherited_key_witness:
  "calculateCost ''constructor'' 1000 500 \<noteq> calculateCost ''gpt-4'' 1000 500"
  using C8_calculateCost_inherited_key by simp

section \<open>The stages of the metered call\<close>

lemma checkRateLimit_frame:
  assumes "checkRateLimit e d u = (r, d1)"
  shows "ai_usage d1 = ai_usage d \<and> projects d1 = projects d \<and> project_events d1 = project_events d
     \<and> project_projections d1 = project_projections d \<and> project_members d1 = project_members d"
  using assms
  by (auto simp: checkRateLimit_def check_rate_limit_def Let_def
      split: if_splits option.splits sum.splits)

lemma get_user_ai_cost_cong:
  "ai_usage d1 = ai_usage d \<Longrightarrow> get_user_ai_cost d1 u s = get_user_ai_cost d u s"
  by (simp add: get_user_ai_cost_def)

lemma get_project_ai_cost_cong:
  "ai_usage d1 = ai_usage d \<Longrightarrow> get_project_ai_cost d1 u s = get_project_ai_cost d u s"
  by (simp add: get_project_ai_cost_def)

lemma checkBudget_cong:
  assumes "ai_usage d1 = ai_usage d"
  shows "checkBudget e d1 u p = checkBudget e d u p"
proof -
  have eqs: "get_user_ai_cost d1 = get_user_ai_cost d"
    "get_project_ai_cost d1 = get_project_ai_cost d"
    using assms by (auto simp: get_user_ai_cost_def get_project_ai_cost_def fun_eq_iff)
  show ?thesis unfolding checkBudget_def eqs by (rule refl)
qed



lemma insert_ai_usage_rows:
  assumes "insert_ai_usage e d u p prov m ti to c st = Inr d'"
  shows "\<exists>c' p'. c = Some c' \<and> numeric_10_6 c' = Some (round_scale_6 c') \<and>
     ai_usage d' = ai_usage d @
     [\<lparr>usage_user_id = u, usage_project_id = p', usage_provider = prov, usage_model = m,
       usage_tokens_in = ti, usage_tokens_out = to, usage_cost_micro = round_scale_6 c',
       usage_status = st, usage_created_at = env_insert_time e\<rparr>]"
  using assms
  by (auto simp: insert_ai_usage_def numeric_10_6_def Let_def split: if_splits option.splits)

text \<open>
  A spend is a whole number of millionths of a dollar, and a write rounds by at most half
  a millionth.
\<close>

lemma sum_cost_usd_micro:
  "sum_list (map usage_cost_usd rows) = real_of_int (sum_list (map usage_cost_micro rows)) / 1000000"
  by (induction rows) (simp_all add: usage_cost_usd_def add_divide_distrib)


lemma get_project_ai_cost_micro:
  "\<exists>k. get_project_ai_cost d p s = real_of_int k / 1000000"
  unfolding get_project_ai_cost_def sum_cost_usd_micro by blast

lemma round_scale_6_bounds:
  "\<bar>real_of_int (round_scale_6 c) / 1000000 - c\<bar> \<le> 1 / 2000000"
proof -
  have fl: "\<bar>real_of_int \<lfloor>x + 1 / 2\<rfloor> - x\<bar> \<le> 1 / 2" for x :: real
    by linarith
  have "\<bar>real_of_int (round_scale_6 c) - c * 1000000\<bar> \<le> 1 / 2"
  proof (cases "0 \<le> c")
    case True
    then show ?thesis using fl[of "c * 1000000"] by (simp add: round_scale_6_def)
  next
    case False
    have "\<bar>- real_of_int \<lfloor>- c * 1000000 + 1 / 2\<rfloor> - c * 1000000\<bar>
        = \<bar>real_of_int \<lfloor>- c * 1000000 + 1 / 2\<rfloor> - (- c * 1000000)\<bar>"
      by linarith
    with False show ?thesis using fl[of "- c * 1000000"] by (simp add: round_scale_6_def)
  qed
  then show ?thesis by (simp add: field_simps)
qed


lemma round_scale_6_micro: "round_scale_6 (real_of_int k / 1000000) = k"
  by (simp add: round_scale_6_def)




lemma ai_serve_not_post:
  "req_method req \<noteq> ''POST'' \<Longrightarrow> resp_body (fst (ai_proxy_serve callAI e d req)) \<in> {AiPreflight, AiError ''Method not allowed''}"
  by (simp add: ai_proxy_serve_def respond_def)

lemma ai_serve_stage_auth:
  assumes "req_method req = ''POST''" "verifyAuth e req = (u, ae)" "ae \<noteq> None \<or> u = []"
  shows "\<exists>m. ai_proxy_serve callAI e d req = (respond 401 (AiError m), d)"
  using assms by (auto simp add: ai_proxy_serve_def)

lemma ai_serve_stage_rate:
  assumes "req_method req = ''POST''" "verifyAuth e req = (u, None)" "u \<noteq> []"
    "checkRateLimit e d u = (rate, d1)" "\<not> rate_allowed rate"
  shows "ai_proxy_serve callAI e d req = (\<lparr>resp_status = 429, resp_body = AiRateLimit (retryAfter rate),
                  resp_retry_after = Some (retry_after_header (retryAfter rate))\<rparr>, d1)"
  using assms by (simp add: ai_proxy_serve_def)

lemma ai_serve_stage_json:
  assumes "req_method req = ''POST''" "verifyAuth e req = (u, None)" "u \<noteq> []"
    "checkRateLimit e d u = (rate, d1)" "rate_allowed rate" "req_body req = None"
  shows "ai_proxy_serve callAI e d req = (respond 400 (AiError ''Invalid JSON body''), d1)"
  using assms by (simp add: ai_proxy_serve_def)

lemma ai_serve_stage_schema:
  assumes "req_method req = ''POST''" "verifyAuth e req = (u, None)" "u \<noteq> []"
    "checkRateLimit e d u = (rate, d1)" "rate_allowed rate" "req_body req = Some body"
    "AiRequestSchema body = None"
  shows "ai_proxy_serve callAI e d req = (respond 400 AiInvalid, d1)"
  using assms by (simp add: ai_proxy_serve_def)

lemma ai_serve_stage_metered:
  assumes "req_method req = ''POST''" "verifyAuth e req = (u, None)" "u \<noteq> []"
    "checkRateLimit e d u = (rate, d1)" "rate_allowed rate" "req_body req = Some body"
    "AiRequestSchema body = Some rq"
  shows "ai_proxy_serve callAI e d req =
     (let budget = checkBudget e d1 u (rq_project_id rq) in
                      if \<not> allowed budget
                      then
                        (respond 402
                           (AiError (case reason budget of
                                       Some m \<Rightarrow> if m = [] then ''Budget exceeded'' else m
                                     | None \<Rightarrow> ''Budget exceeded'')),
                         recordAIUsage e d1 u (rq_project_id rq) (rq_provider rq)
                           (rq_model rq) 0 0 (Some 0) StatusFailed)
                      else
                        (case callAI (rq_provider rq) (rq_model rq) (rq_prompt rq) of
                           Inl errorMessage \<Rightarrow>
                             (respond 502 (AiError errorMessage),
                              recordAIUsage e d1 u (rq_project_id rq) (rq_provider rq)
                                (rq_model rq) 0 0 (Some 0) StatusFailed)
                         | Inr aiResult \<Rightarrow>
                             let costUsd = calculateCost (rq_model rq) (tokensIn aiResult)
                                             (tokensOut aiResult)
                             in (respond 200
                                   (AiSuccess (ai_text aiResult) (tokensIn aiResult)
                                      (tokensOut aiResult) costUsd),
                                 recordAIUsage e d1 u (rq_project_id rq) (rq_provider rq)
                                   (rq_model rq) (tokensIn aiResult) (tokensOut aiResult)
                                   costUsd StatusOk)))"
  using assms by (simp add: ai_proxy_serve_def)

text \<open>Every request falls into one of the stages.\<close>

lemma ai_serve_cases:
  obtains
    (early) "ai_usage (snd (ai_proxy_serve callAI e d req)) = ai_usage d"
       "resp_status (fst (ai_proxy_serve callAI e d req)) \<in> {200, 405, 401, 429, 400}"
       "\<forall>t a b c. resp_body (fst (ai_proxy_serve callAI e d req)) \<noteq> AiSuccess t a b c"
  | (metered) u rate d1 body rq where
      "req_method req = ''POST''" "verifyAuth e req = (u, None)" "u \<noteq> []"
      "checkRateLimit e d u = (rate, d1)" "rate_allowed rate" "req_body req = Some body"
      "AiRequestSchema body = Some rq"
proof -
  obtain u ae where va: "verifyAuth e req = (u, ae)" by (cases "verifyAuth e req")
  obtain rate d1 where rl: "checkRateLimit e d u = (rate, d1)" by (cases "checkRateLimit e d u")
  note fr = checkRateLimit_frame[OF rl]
  show ?thesis
  proof (cases "req_method req = ''POST''")
    case False
    then show ?thesis by (intro early) (simp_all add: ai_proxy_serve_def respond_def)
  next
    case post: True
    show ?thesis
    proof (cases "ae \<noteq> None \<or> u = []")
      case True
      from ai_serve_stage_auth[OF post va True, of callAI d] show ?thesis
        by (intro early) (auto simp: respond_def)
    next
      case False
      then have va': "verifyAuth e req = (u, None)" and u: "u \<noteq> []" using va by auto
      show ?thesis
      proof (cases "rate_allowed rate")
        case False
        from ai_serve_stage_rate[OF post va' u rl False, of callAI] fr show ?thesis
          by (intro early) (auto simp: respond_def)
      next
        case ra: True
        show ?thesis
        proof (cases "req_body req")
          case None
          from ai_serve_stage_json[OF post va' u rl ra None, of callAI] fr show ?thesis
            by (intro early) (auto simp: respond_def)
        next
          case (Some body)
          show ?thesis
          proof (cases "AiRequestSchema body")
            case None
            from ai_serve_stage_schema[OF post va' u rl ra Some None, of callAI] fr show ?thesis
              by (intro early) (auto simp: respond_def)
          next
            case (Some rq)
            from post va' u rl ra \<open>req_body req = Some body\<close> Some show ?thesis by (rule metered)
          qed
        qed
      qed
    qed
  qed
qed


section \<open>Properties of the budget guard and the ledger\<close>

lemmas ai_eval = ai_proxy_serve_def verifyAuth_def checkRateLimit_def check_rate_limit_def
  compute_window_start_def date_trunc_second_def extract_second_integer_def
  RATE_LIMIT_WINDOW_def RATE_LIMIT_MAX_REQUESTS_def AiRequestSchema_def parse_project_id_def
  parse_prompt_def parse_provider_def parse_model_def js_field_def ai_providers_def
  checkBudget_def get_user_ai_cost_def get_project_ai_cost_def USER_DAILY_BUDGET_def
  PROJECT_DAILY_BUDGET_def callAIProvider_def calculateCost_def lookup_pricing_def js_index_def
  COST_PER_1K_TOKENS_def object_prototype_keys_def recordAIUsage_def insert_ai_usage_def
  usage_cost_usd_def numeric_10_6_def round_scale_6_def
  respond_def example_env_def empty_db_def example_usage_def example_request_def Let_def


lemma checkBudget_denies_at_cap:
  "\<not> fault_user_cost e \<Longrightarrow>
   USER_DAILY_BUDGET \<le> get_user_ai_cost d u (Some (env_today e)) \<Longrightarrow>
   checkBudget e d u pid = \<lparr>allowed = False, reason = Some ''User daily budget exceeded''\<rparr>"
  by (simp add: checkBudget_def USER_DAILY_BUDGET_def)

lemma checkBudget_allowed_below_cap:
  "\<not> fault_user_cost e \<Longrightarrow> allowed (checkBudget e d u pid) \<Longrightarrow>
   get_user_ai_cost d u (Some (env_today e)) < USER_DAILY_BUDGET"
  by (auto simp add: checkBudget_def USER_DAILY_BUDGET_def Let_def split: if_splits option.splits)



lemma recordAIUsage_rows:
  "\<exists>rows. ai_usage (recordAIUsage e d u p prov m ti to c st) = ai_usage d @ rows \<and> length rows \<le> 1"
proof (cases "insert_ai_usage e d u p prov m ti to c st")
  case (Inl err)
  then show ?thesis by (simp add: recordAIUsage_def)
next
  case (Inr d')
  from insert_ai_usage_rows[OF Inr] Inr show ?thesis by (auto simp: recordAIUsage_def)
qed

lemma insert_ai_usage_succeeds:
  assumes "\<not> fault_usage_insert e" "case p of None \<Rightarrow> True | Some q \<Rightarrow> projects d q \<noteq> None"
    and "numeric_10_6 c \<noteq> None"
  shows "\<exists>p'. insert_ai_usage e d u p prov m ti to (Some c) st =
     Inr (d\<lparr>ai_usage := ai_usage d @
     [\<lparr>usage_user_id = u, usage_project_id = p', usage_provider = prov, usage_model = m,
       usage_tokens_in = ti, usage_tokens_out = to, usage_cost_micro = round_scale_6 c,
       usage_status = st, usage_created_at = env_insert_time e\<rparr>]\<rparr>)"
  using assms
  by (auto simp: insert_ai_usage_def numeric_10_6_def Let_def split: option.splits if_splits)

lemma recordAIUsage_succeeds:
  assumes "\<not> fault_usage_insert e" "case p of None \<Rightarrow> True | Some q \<Rightarrow> projects d q \<noteq> None"
    and "numeric_10_6 c \<noteq> None"
  shows "\<exists>r. ai_usage (recordAIUsage e d u p prov m ti to (Some c) st) = ai_usage d @ [r] \<and>
     usage_user_id r = u \<and> usage_status r = st \<and> usage_cost_micro r = round_scale_6 c \<and>
     usage_tokens_in r = ti \<and> usage_tokens_out r = to"
  using insert_ai_usage_succeeds[OF assms, of u prov m ti to st]
  by (auto simp: recordAIUsage_def)

lemma numeric_10_6_zero: "numeric_10_6 0 = Some 0"
  by (simp add: numeric_10_6_def round_scale_6_def)

lemma ai_serve_ledger_append_only:
  "\<exists>rows. ai_usage (snd (ai_proxy_serve callAI e d req)) = ai_usage d @ rows \<and> length rows \<le> 1"
proof (cases rule: ai_serve_cases[of callAI e d req])
  case early
  then show ?thesis by simp
next
  case (metered u rate d1 body rq)
  note eq = ai_serve_stage_metered[OF metered, of callAI]
  note fr = checkRateLimit_frame[OF metered(4)]
  show ?thesis
    unfolding eq using fr recordAIUsage_rows[of e d1]
    by (simp add: Let_def split: sum.splits)
qed

lemma ledger_one_record_when_insert_succeeds:
  assumes run: "ai_proxy_serve callAI e d req = (resp, d')"
    and body: "req_body req = Some body" and rq: "AiRequestSchema body = Some rq"
    and up: "\<not> fault_usage_insert e"
    and fk: "case rq_project_id rq of None \<Rightarrow> True | Some p \<Rightarrow> projects d p \<noteq> None"
  shows "(resp_status resp = 402 \<or> resp_status resp = 502 \<longrightarrow>
           (\<exists>r. ai_usage d' = ai_usage d @ [r] \<and> usage_status r = StatusFailed \<and>
                usage_cost_usd r = 0 \<and> usage_tokens_in r = 0 \<and> usage_tokens_out r = 0)) \<and>
         (\<forall>answer a b c. resp_body resp = AiSuccess answer a b (Some c) \<and>
              numeric_10_6 c \<noteq> None \<longrightarrow>
           (\<exists>r. ai_usage d' = ai_usage d @ [r] \<and> usage_status r = StatusOk \<and>
                usage_cost_micro r = round_scale_6 c \<and>
                \<bar>usage_cost_usd r - c\<bar> \<le> 1 / 2000000 \<and>
                usage_tokens_in r = a \<and> usage_tokens_out r = b))"
proof (cases rule: ai_serve_cases[of callAI e d req])
  case early
  with run show ?thesis by auto
next
  case (metered u rate d1 body' rq')
  have same: "rq' = rq" using metered(6,7) body rq by simp
  note eq = ai_serve_stage_metered[OF metered, of callAI, unfolded same]
  note fr = checkRateLimit_frame[OF metered(4)]
  have fk1: "case rq_project_id rq of None \<Rightarrow> True | Some p \<Rightarrow> projects d1 p \<noteq> None"
    using fk fr by (simp split: option.splits)
  note rec = recordAIUsage_succeeds[OF up fk1, where u = u and prov = "rq_provider rq"
      and m = "rq_model rq"]
  have z: "numeric_10_6 0 \<noteq> None" "round_scale_6 0 = 0"
    by (simp_all add: numeric_10_6_def round_scale_6_def)
  have failed: "\<exists>r. ai_usage d' = ai_usage d @ [r] \<and> usage_status r = StatusFailed \<and>
                usage_cost_usd r = 0 \<and> usage_tokens_in r = 0 \<and> usage_tokens_out r = 0"
    if "d' = recordAIUsage e d1 u (rq_project_id rq) (rq_provider rq) (rq_model rq) 0 0 (Some 0) StatusFailed"
    using rec[OF z(1), of 0 0 StatusFailed] that fr z(2) by (auto simp: usage_cost_usd_def)
  show ?thesis
  proof (cases "allowed (checkBudget e d1 u (rq_project_id rq))")
    case False
    with run eq have "resp_status resp = 402"
      and "d' = recordAIUsage e d1 u (rq_project_id rq) (rq_provider rq) (rq_model rq) 0 0 (Some 0) StatusFailed"
      by (auto simp: respond_def)
    moreover from run eq False have "\<forall>answer a b c. resp_body resp \<noteq> AiSuccess answer a b c"
      by (auto simp: respond_def)
    ultimately show ?thesis using failed by simp
  next
    case al: True
    show ?thesis
    proof (cases "callAI (rq_provider rq) (rq_model rq) (rq_prompt rq)")
      case (Inl msg)
      with run eq al have "resp_status resp = 502"
        and "d' = recordAIUsage e d1 u (rq_project_id rq) (rq_provider rq) (rq_model rq) 0 0 (Some 0) StatusFailed"
        by (auto simp: respond_def)
      moreover from run eq al Inl have "\<forall>answer a b c. resp_body resp \<noteq> AiSuccess answer a b c"
        by (auto simp: respond_def)
      ultimately show ?thesis using failed by simp
    next
      case (Inr r)
      with run eq al have st: "resp_status resp = 200"
        and b: "resp_body resp = AiSuccess (ai_text r) (tokensIn r) (tokensOut r)
                  (calculateCost (rq_model rq) (tokensIn r) (tokensOut r))"
        and d': "d' = recordAIUsage e d1 u (rq_project_id rq) (rq_provider rq) (rq_model rq)
                  (tokensIn r) (tokensOut r) (calculateCost (rq_model rq) (tokensIn r) (tokensOut r)) StatusOk"
        by (auto simp: respond_def Let_def)
      show ?thesis
      proof (intro conjI allI impI)
        assume "resp_status resp = 402 \<or> resp_status resp = 502"
        with st show "\<exists>r. ai_usage d' = ai_usage d @ [r] \<and> usage_status r = StatusFailed \<and>
                usage_cost_usd r = 0 \<and> usage_tokens_in r = 0 \<and> usage_tokens_out r = 0" by simp
      next
        fix answer a b c
        assume as: "resp_body resp = AiSuccess answer a b (Some c) \<and> numeric_10_6 c \<noteq> None"
        with b have ab: "a = tokensIn r" "b = tokensOut r"
          "calculateCost (rq_model rq) (tokensIn r) (tokensOut r) = Some c" by simp_all
        from as have fit: "numeric_10_6 c \<noteq> None" by simp
        from rec[OF fit, of "tokensIn r" "tokensOut r" StatusOk] d' ab fr
        obtain row where row: "ai_usage d' = ai_usage d @ [row]" "usage_status row = StatusOk"
          "usage_cost_micro row = round_scale_6 c" "usage_tokens_in row = a" "usage_tokens_out row = b"
          by auto
        have "\<bar>usage_cost_usd row - c\<bar> \<le> 1 / 2000000"
          using round_scale_6_bounds[of c] row(3) by (simp add: usage_cost_usd_def)
        with row
        show "\<exists>r. ai_usage d' = ai_usage d @ [r] \<and> usage_status r = StatusOk \<and>
                usage_cost_micro r = round_scale_6 c \<and>
                \<bar>usage_cost_usd r - c\<bar> \<le> 1 / 2000000 \<and>
                usage_tokens_in r = a \<and> usage_tokens_out r = b" by blast
      qed
    qed
  qed
qed

lemma checkBudget_fail_open:
  "fault_user_cost e \<Longrightarrow> fault_project_cost e \<Longrightarrow> checkBudget e d u pid = \<lparr>allowed = True, reason = None\<rparr>"
  by (auto simp add: checkBudget_def Let_def split: option.splits)

lemma checkBudget_user_fault:
  "fault_user_cost e \<Longrightarrow> reason (checkBudget e d u pid) \<noteq> Some ''User daily budget exceeded''"
  by (auto simp add: checkBudget_def Let_def split: option.splits)

lemma checkBudget_project_fault:
  "fault_project_cost e \<Longrightarrow> reason (checkBudget e d u pid) \<noteq> Some ''Project daily budget exceeded''"
  by (auto simp add: checkBudget_def Let_def split: option.splits)


lemma ai_serve_no_402_when_budget_backend_fails:
  assumes "fault_user_cost e" "fault_project_cost e"
  shows "resp_status (fst (ai_proxy_serve callAI e d req)) \<noteq> 402"
proof (cases rule: ai_serve_cases[of callAI e d req])
  case early
  then show ?thesis by auto
next
  case (metered u rate d1 body rq)
  show ?thesis
    unfolding ai_serve_stage_metered[OF metered, of callAI]
    by (simp add: checkBudget_fail_open[OF assms] respond_def Let_def split: sum.splits)
qed

lemma failed_rows_add_nothing_user:
  assumes "list_all (\<lambda>r. usage_status r = StatusFailed) rows"
  shows "get_user_ai_cost (d\<lparr>ai_usage := ai_usage d @ rows\<rparr>) u since = get_user_ai_cost d u since"
proof -
  have "filter (\<lambda>r. usage_user_id r = u \<and> usage_status r = StatusOk \<and>
          (case since of None \<Rightarrow> True | Some s \<Rightarrow> s \<le> usage_created_at r)) rows = []"
    using assms by (induction rows) auto
  then show ?thesis by (simp add: get_user_ai_cost_def)
qed

lemma failed_rows_add_nothing_project:
  assumes "list_all (\<lambda>r. usage_status r = StatusFailed) rows"
  shows "get_project_ai_cost (d\<lparr>ai_usage := ai_usage d @ rows\<rparr>) p since = get_project_ai_cost d p since"
proof -
  have "filter (\<lambda>r. usage_project_id r = Some p \<and> usage_status r = StatusOk \<and>
          (case since of None \<Rightarrow> True | Some s \<Rightarrow> s \<le> usage_created_at r)) rows = []"
    using assms by (induction rows) auto
  then show ?thesis by (simp add: get_project_ai_cost_def)
qed

lemma ok_rows_only_user:
  "get_user_ai_cost (d\<lparr>ai_usage := filter (\<lambda>r. usage_status r = StatusOk) (ai_usage d)\<rparr>) u since
     = get_user_ai_cost d u since"
  by (auto simp: get_user_ai_cost_def intro!: arg_cong[where f = sum_list] arg_cong[where f = "map usage_cost_usd"] filter_cong)

lemma ok_rows_only_project:
  "get_project_ai_cost (d\<lparr>ai_usage := filter (\<lambda>r. usage_status r = StatusOk) (ai_usage d)\<rparr>) p since
     = get_project_ai_cost d p since"
  by (auto simp: get_project_ai_cost_def intro!: arg_cong[where f = sum_list] arg_cong[where f = "map usage_cost_usd"] filter_cong)

section \<open>The claims about the budget guard and the ledger\<close>

text \<open>
  C2 as stated (a principal whose prior \<^verbatim>\<open>ok\<close> spend of the day is exactly 10.00 is
  still allowed one more call) fails: with one \<^verbatim>\<open>ok\<close> row of cost 10.00 the sum is
  the cap, and \<^verbatim>\<open>userCost >= USER_DAILY_BUDGET\<close> denies.
\<close>

theorem C2_exactly_at_cap_is_denied:
  "get_user_ai_cost (empty_db\<lparr>ai_usage := [example_usage ''alice'' 10 StatusOk]\<rparr>) ''alice''
      (Some (env_today example_env)) = USER_DAILY_BUDGET \<and>
   checkBudget example_env (empty_db\<lparr>ai_usage := [example_usage ''alice'' 10 StatusOk]\<rparr>)
      ''alice'' None = \<lparr>allowed = False, reason = Some ''User daily budget exceeded''\<rparr>"
  by (simp add: checkBudget_def get_user_ai_cost_def USER_DAILY_BUDGET_def example_env_def
      empty_db_def example_usage_def usage_cost_usd_def round_scale_6_def)

text \<open>
  C2, amended: when the lookup of the user's spend succeeds, the budget check denies with
  ``User daily budget exceeded'' as soon as the prior \<^verbatim>\<open>ok\<close> spend of the day has
  reached the cap (at 10.00 exactly, and above), and a call is allowed only while that
  spend is strictly below the cap; with no project given, it is allowed exactly then.
\<close>

theorem C2_denial_begins_at_cap:
  assumes "\<not> fault_user_cost e"
  shows "(USER_DAILY_BUDGET \<le> get_user_ai_cost d u (Some (env_today e)) \<longrightarrow>
            checkBudget e d u pid =
              \<lparr>allowed = False, reason = Some ''User daily budget exceeded''\<rparr>) \<and>
         (allowed (checkBudget e d u pid) \<longrightarrow>
            get_user_ai_cost d u (Some (env_today e)) < USER_DAILY_BUDGET) \<and>
         allowed (checkBudget e d u None) =
            (get_user_ai_cost d u (Some (env_today e)) < USER_DAILY_BUDGET)"
proof (intro conjI impI)
  assume "USER_DAILY_BUDGET \<le> get_user_ai_cost d u (Some (env_today e))"
  then show "checkBudget e d u pid =
      \<lparr>allowed = False, reason = Some ''User daily budget exceeded''\<rparr>"
    by (rule checkBudget_denies_at_cap[OF assms])
next
  assume "allowed (checkBudget e d u pid)"
  then show "get_user_ai_cost d u (Some (env_today e)) < USER_DAILY_BUDGET"
    by (rule checkBudget_allowed_below_cap[OF assms])
next
  show "allowed (checkBudget e d u None) =
      (get_user_ai_cost d u (Some (env_today e)) < USER_DAILY_BUDGET)"
    using assms by (auto simp: checkBudget_def USER_DAILY_BUDGET_def)
qed

theorem C2_denial_begins_at_cap_witness:
  "\<not> fault_user_cost example_env \<and>
   \<not> allowed (checkBudget example_env
       (empty_db\<lparr>ai_usage := [example_usage ''alice'' 10 StatusOk]\<rparr>) ''alice'' None) \<and>
   allowed (checkBudget example_env
       (empty_db\<lparr>ai_usage := [example_usage ''alice'' 9.99 StatusOk]\<rparr>) ''alice'' None)"
proof -
  define d10 where "d10 = empty_db\<lparr>ai_usage := [example_usage ''alice'' 10 StatusOk]\<rparr>"
  define d9 where "d9 = empty_db\<lparr>ai_usage := [example_usage ''alice'' 9.99 StatusOk]\<rparr>"
  have nf: "\<not> fault_user_cost example_env" by (simp add: example_env_def)
  have spend: "get_user_ai_cost d10 ''alice'' (Some (env_today example_env)) = 10"
    "get_user_ai_cost d9 ''alice'' (Some (env_today example_env)) = 9.99"
    unfolding d10_def d9_def
    by (simp_all add: get_user_ai_cost_def example_env_def empty_db_def example_usage_def
        usage_cost_usd_def round_scale_6_def)
  from C2_denial_begins_at_cap[OF nf, of d10 "''alice''" None]
    C2_denial_begins_at_cap[OF nf, of d9 "''alice''" None]
  have "\<not> allowed (checkBudget example_env d10 ''alice'' None)"
    and "allowed (checkBudget example_env d9 ''alice'' None)"
    by (simp_all add: spend USER_DAILY_BUDGET_def)
  with nf show ?thesis unfolding d10_def d9_def by simp
qed



text \<open>
  C5: only \<^verbatim>\<open>ok\<close> rows count toward the caps. Dropping every row that is not
  \<^verbatim>\<open>ok\<close> changes neither sum nor the verdict of the budget check, and appending
  \<^verbatim>\<open>failed\<close> rows adds nothing to either sum.
\<close>

theorem C5_only_ok_rows_count:
  "get_user_ai_cost (d\<lparr>ai_usage := filter (\<lambda>r. usage_status r = StatusOk) (ai_usage d)\<rparr>) u since
     = get_user_ai_cost d u since \<and>
   get_project_ai_cost (d\<lparr>ai_usage := filter (\<lambda>r. usage_status r = StatusOk) (ai_usage d)\<rparr>) p since
     = get_project_ai_cost d p since \<and>
   checkBudget e (d\<lparr>ai_usage := filter (\<lambda>r. usage_status r = StatusOk) (ai_usage d)\<rparr>) u pid
     = checkBudget e d u pid \<and>
   (list_all (\<lambda>r. usage_status r = StatusFailed) rows \<longrightarrow>
      get_user_ai_cost (d\<lparr>ai_usage := ai_usage d @ rows\<rparr>) u since = get_user_ai_cost d u since \<and>
      get_project_ai_cost (d\<lparr>ai_usage := ai_usage d @ rows\<rparr>) p since
        = get_project_ai_cost d p since)"
proof -
  have eqs: "get_user_ai_cost (d\<lparr>ai_usage := filter (\<lambda>r. usage_status r = StatusOk) (ai_usage d)\<rparr>)
               = get_user_ai_cost d"
    "get_project_ai_cost (d\<lparr>ai_usage := filter (\<lambda>r. usage_status r = StatusOk) (ai_usage d)\<rparr>)
               = get_project_ai_cost d"
    by (simp_all add: fun_eq_iff ok_rows_only_user ok_rows_only_project)
  have "checkBudget e (d\<lparr>ai_usage := filter (\<lambda>r. usage_status r = StatusOk) (ai_usage d)\<rparr>) u pid
     = checkBudget e d u pid"
    unfolding checkBudget_def eqs by (rule refl)
  then show ?thesis
    using failed_rows_add_nothing_user failed_rows_add_nothing_project
    by (simp add: ok_rows_only_user ok_rows_only_project)
qed

theorem C5_nine_ok_five_failed:
  "get_user_ai_cost (empty_db\<lparr>ai_usage := [example_usage ''alice'' 9 StatusOk]
        @ [example_usage ''alice'' 5 StatusFailed]\<rparr>) ''alice'' (Some (env_today example_env)) = 9 \<and>
   checkBudget example_env (empty_db\<lparr>ai_usage := [example_usage ''alice'' 9 StatusOk]
        @ [example_usage ''alice'' 5 StatusFailed]\<rparr>) ''alice'' None
     = \<lparr>allowed = True, reason = None\<rparr>"
proof -
  define d where "d = empty_db\<lparr>ai_usage := [example_usage ''alice'' 9 StatusOk]\<rparr>"
  have failed: "list_all (\<lambda>r. usage_status r = StatusFailed) [example_usage ''alice'' 5 StatusFailed]"
    by (simp add: example_usage_def)
  have nine: "get_user_ai_cost d ''alice'' (Some (env_today example_env)) = 9"
    by (simp add: d_def get_user_ai_cost_def example_env_def empty_db_def example_usage_def
        usage_cost_usd_def round_scale_6_def)
  have same: "get_user_ai_cost (d\<lparr>ai_usage := ai_usage d @ [example_usage ''alice'' 5 StatusFailed]\<rparr>)
      ''alice'' (Some (env_today example_env)) = 9"
    using C5_only_ok_rows_count[where d = d and rows = "[example_usage ''alice'' 5 StatusFailed]"
        and u = "''alice''" and since = "Some (env_today example_env)"] failed nine
    by simp
  have d2: "d\<lparr>ai_usage := ai_usage d @ [example_usage ''alice'' 5 StatusFailed]\<rparr> =
      empty_db\<lparr>ai_usage := [example_usage ''alice'' 9 StatusOk] @ [example_usage ''alice'' 5 StatusFailed]\<rparr>"
    by (simp add: d_def)
  from same have "checkBudget example_env
      (d\<lparr>ai_usage := ai_usage d @ [example_usage ''alice'' 5 StatusFailed]\<rparr>) ''alice'' None
        = \<lparr>allowed = True, reason = None\<rparr>"
    by (simp add: checkBudget_def USER_DAILY_BUDGET_def example_env_def)
  with same show ?thesis unfolding d2 by simp
qed

text \<open>
  C10: the budget guard fails open. When a spend lookup fails its \<^verbatim>\<open>data\<close> is
  \<^verbatim>\<open>null\<close>, which is falsy, so that cap is not enforced; when both lookups fail the
  call is allowed whatever has been spent, and the handler never answers 402. A spend
  of exactly 0 passes the user check as well.
\<close>

theorem C10_budget_guard_fails_open:
  "(fault_user_cost e \<and> fault_project_cost e \<longrightarrow>
      checkBudget e d u pid = \<lparr>allowed = True, reason = None\<rparr> \<and>
      resp_status (fst (ai_proxy_serve callAI e d req)) \<noteq> 402) \<and>
   (fault_user_cost e \<longrightarrow>
      checkBudget e d u None = \<lparr>allowed = True, reason = None\<rparr> \<and>
      reason (checkBudget e d u pid) \<noteq> Some ''User daily budget exceeded'') \<and>
   (fault_project_cost e \<longrightarrow>
      reason (checkBudget e d u pid) \<noteq> Some ''Project daily budget exceeded'') \<and>
   (get_user_ai_cost d u (Some (env_today e)) = 0 \<longrightarrow>
      reason (checkBudget e d u pid) \<noteq> Some ''User daily budget exceeded'')"
proof (intro conjI impI)
  assume both: "fault_user_cost e \<and> fault_project_cost e"
  then show "checkBudget e d u pid = \<lparr>allowed = True, reason = None\<rparr>"
    by (simp add: checkBudget_fail_open)
  from both show "resp_status (fst (ai_proxy_serve callAI e d req)) \<noteq> 402"
    by (simp add: ai_serve_no_402_when_budget_backend_fails)
next
  assume "fault_user_cost e"
  then show "checkBudget e d u None = \<lparr>allowed = True, reason = None\<rparr>"
    and "reason (checkBudget e d u pid) \<noteq> Some ''User daily budget exceeded''"
    by (simp_all add: checkBudget_user_fault) (simp add: checkBudget_def)
next
  assume "fault_project_cost e"
  then show "reason (checkBudget e d u pid) \<noteq> Some ''Project daily budget exceeded''"
    by (rule checkBudget_project_fault)
next
  assume "get_user_ai_cost d u (Some (env_today e)) = 0"
  then show "reason (checkBudget e d u pid) \<noteq> Some ''User daily budget exceeded''"
    by (auto simp: checkBudget_def Let_def split: option.splits)
qed

theorem C10_budget_guard_fails_open_witness:
  "get_user_ai_cost (empty_db\<lparr>ai_usage := [example_usage ''alice'' 100 StatusOk]\<rparr>) ''alice''
      (Some (env_today example_env)) = 100 \<and>
   checkBudget (example_env\<lparr>fault_user_cost := True, fault_project_cost := True\<rparr>)
      (empty_db\<lparr>ai_usage := [example_usage ''alice'' 100 StatusOk]\<rparr>) ''alice'' None
     = \<lparr>allowed = True, reason = None\<rparr> \<and>
   resp_status (fst (ai_proxy_serve callAIProvider
      (example_env\<lparr>fault_user_cost := True, fault_project_cost := True\<rparr>)
      (empty_db\<lparr>ai_usage := [example_usage ''alice'' 100 StatusOk]\<rparr>)
      (example_request (JObj [(''prompt'', JStr ''hi'')])))) \<noteq> 402 \<and>
   \<not> allowed (checkBudget example_env
      (empty_db\<lparr>ai_usage := [example_usage ''alice'' 100 StatusOk]\<rparr>) ''alice'' None)"
proof -
  have spend: "get_user_ai_cost (empty_db\<lparr>ai_usage := [example_usage ''alice'' 100 StatusOk]\<rparr>)
      ''alice'' (Some (env_today example_env)) = 100"
    by (simp add: get_user_ai_cost_def example_env_def empty_db_def example_usage_def
        usage_cost_usd_def round_scale_6_def)
  have normal: "\<not> allowed (checkBudget example_env
      (empty_db\<lparr>ai_usage := [example_usage ''alice'' 100 StatusOk]\<rparr>) ''alice'' None)"
    using spend by (simp add: checkBudget_def USER_DAILY_BUDGET_def example_env_def)
  from C10_budget_guard_fails_open[where e = "example_env\<lparr>fault_user_cost := True, fault_project_cost := True\<rparr>"
      and d = "empty_db\<lparr>ai_usage := [example_usage ''alice'' 100 StatusOk]\<rparr>"
      and u = "''alice''" and pid = None and callAI = callAIProvider
      and req = "example_request (JObj [(''prompt'', JStr ''hi'')])"]
  show ?thesis using spend normal by simp
qed

text \<open>
  C4 (every attempted metered call produces exactly one usage record). A call whose
  \<^verbatim>\<open>project_id\<close> is a well-formed UUID that names no project passes the budget check,
  is answered 200 with its usage, and leaves the ledger empty: the insert violates the
  foreign key of \<^verbatim>\<open>ai_usage.project_id\<close>, and \<^verbatim>\<open>recordAIUsage\<close> only logs the error.
\<close>

theorem C4_unrecorded_call_on_unknown_project:
  "resp_status (fst (ai_proxy_serve callAIProvider example_env empty_db
      (example_request (JObj [(''prompt'', JStr ''hi''),
         (''project_id'', JStr ''00000000-0000-0000-0000-000000000001'')])))) = 200 \<and>
   resp_body (fst (ai_proxy_serve callAIProvider example_env empty_db
      (example_request (JObj [(''prompt'', JStr ''hi''),
         (''project_id'', JStr ''00000000-0000-0000-0000-000000000001'')]))))
     = AiSuccess (''Mock AI response for: '' @ [CHR 0x22] @ ''hi...'' @ [CHR 0x22]) 1 8
         (Some 0.00051) \<and>
   ai_usage (snd (ai_proxy_serve callAIProvider example_env empty_db
      (example_request (JObj [(''prompt'', JStr ''hi''),
         (''project_id'', JStr ''00000000-0000-0000-0000-000000000001'')])))) = []"
  by (simp add: ai_eval is_uuid_def is_hex_digit_def)

theorem C4_unrecorded_call_on_unknown_project_witness:
  "projects empty_db ''00000000-0000-0000-0000-000000000001'' = None \<and>
   is_uuid ''00000000-0000-0000-0000-000000000001'' \<and>
   resp_status (fst (ai_proxy_serve callAIProvider example_env empty_db
      (example_request (JObj [(''prompt'', JStr ''hi''),
         (''project_id'', JStr ''00000000-0000-0000-0000-000000000001'')])))) = 200 \<and>
   length (ai_usage (snd (ai_proxy_serve callAIProvider example_env empty_db
      (example_request (JObj [(''prompt'', JStr ''hi''),
         (''project_id'', JStr ''00000000-0000-0000-0000-000000000001'')]))))) = 0"
  using C4_unrecorded_call_on_unknown_project
  by (simp add: empty_db_def is_uuid_def is_hex_digit_def)

section \<open>Properties of the rate limiter\<close>

lemmas rl_eval = checkRateLimit_def check_rate_limit_def compute_window_start_def
  date_trunc_second_def extract_second_integer_def RATE_LIMIT_WINDOW_def
  RATE_LIMIT_MAX_REQUESTS_def example_env_def empty_db_def Let_def

lemma checkRateLimit_in_window:
  assumes "\<not> fault_rate_limit e"
    and "rate_limits d (''ai_proxy:'' @ u) = Some \<lparr>window_start = w, rl_count = c\<rparr>"
    and "compute_window_start (env_now e) 60 = w"
  shows "checkRateLimit e d u =
     (if c \<ge> 30 then (\<lparr>rate_allowed = False, retryAfter = Some 60\<rparr>, d)
      else (\<lparr>rate_allowed = True, retryAfter = None\<rparr>,
            d\<lparr>rate_limits := (rate_limits d)
               (''ai_proxy:'' @ u \<mapsto> \<lparr>window_start = w, rl_count = c + 1\<rparr>)\<rparr>))"
  using assms
  by (simp add: checkRateLimit_def check_rate_limit_def RATE_LIMIT_WINDOW_def
      RATE_LIMIT_MAX_REQUESTS_def Let_def)

lemma checkRateLimit_new_window:
  assumes "\<not> fault_rate_limit e"
    and "compute_window_start (env_now e) 60 = w"
    and "case rate_limits d (''ai_proxy:'' @ u) of None \<Rightarrow> True | Some r \<Rightarrow> window_start r < w"
  shows "checkRateLimit e d u =
     (\<lparr>rate_allowed = True, retryAfter = None\<rparr>,
      d\<lparr>rate_limits := (rate_limits d)
         (''ai_proxy:'' @ u \<mapsto> \<lparr>window_start = w, rl_count = 1\<rparr>)\<rparr>)"
  using assms
  by (auto simp add: checkRateLimit_def check_rate_limit_def RATE_LIMIT_WINDOW_def
      RATE_LIMIT_MAX_REQUESTS_def Let_def split: option.splits)

lemma checkRateLimit_seq_in_window:
  assumes "\<not> fault_rate_limit e"
    and "\<forall>t \<in> set ts. compute_window_start t 60 = w"
    and "rate_limits d (''ai_proxy:'' @ u) = Some \<lparr>window_start = w, rl_count = c\<rparr>"
  shows "map rate_allowed (fst (checkRateLimit_seq e d u ts)) =
           map (\<lambda>i. c + int i < 30) [0..<length ts]"
  using assms(2,3)
proof (induction ts arbitrary: d c)
  case Nil
  then show ?case by simp
next
  case (Cons t ts)
  have nf: "\<not> fault_rate_limit (e\<lparr>env_now := t\<rparr>)" using assms(1) by simp
  have w: "compute_window_start (env_now (e\<lparr>env_now := t\<rparr>)) 60 = w" using Cons.prems(1) by simp
  note step = checkRateLimit_in_window[OF nf Cons.prems(2) w]
  have up: "[0..<Suc (length ts)] = 0 # map Suc [0..<length ts]"
    by (simp add: upt_conv_Cons map_Suc_upt del: upt_Suc)
  show ?case
  proof (cases "c \<ge> 30")
    case True
    with Cons.IH[of d c] Cons.prems step show ?thesis
      by (simp add: up comp_def case_prod_beta del: upt_Suc)
  next
    case False
    let ?d1 = "d\<lparr>rate_limits := (rate_limits d)
               (''ai_proxy:'' @ u \<mapsto> \<lparr>window_start = w, rl_count = c + 1\<rparr>)\<rparr>"
    have "rate_limits ?d1 (''ai_proxy:'' @ u) = Some \<lparr>window_start = w, rl_count = c + 1\<rparr>" by simp
    from Cons.IH[OF _ this] Cons.prems(1) False step show ?thesis
      by (simp add: up comp_def add.assoc case_prod_beta del: upt_Suc)
  qed
qed

lemma checkRateLimit_fresh_window:
  assumes nf: "\<not> fault_rate_limit e"
    and win: "\<forall>t \<in> set ts. compute_window_start t 60 = w"
    and old: "case rate_limits d (''ai_proxy:'' @ u) of None \<Rightarrow> True | Some r \<Rightarrow> window_start r < w"
  shows "map rate_allowed (fst (checkRateLimit_seq e d u ts)) = map (\<lambda>i. i < 30) [0..<length ts]"
proof (cases ts)
  case Nil
  then show ?thesis by simp
next
  case (Cons t ts')
  have nf': "\<not> fault_rate_limit (e\<lparr>env_now := t\<rparr>)" using nf by simp
  have w: "compute_window_start (env_now (e\<lparr>env_now := t\<rparr>)) 60 = w" using win Cons by simp
  note first = checkRateLimit_new_window[OF nf' w old]
  let ?d1 = "d\<lparr>rate_limits := (rate_limits d)
         (''ai_proxy:'' @ u \<mapsto> \<lparr>window_start = w, rl_count = 1\<rparr>)\<rparr>"
  have row: "rate_limits ?d1 (''ai_proxy:'' @ u) = Some \<lparr>window_start = w, rl_count = 1\<rparr>" by simp
  have rest: "\<forall>t \<in> set ts'. compute_window_start t 60 = w" using win Cons by simp
  have up: "[0..<Suc (length ts')] = 0 # map Suc [0..<length ts']"
    by (simp add: upt_conv_Cons map_Suc_upt del: upt_Suc)
  from checkRateLimit_seq_in_window[OF nf rest row] first show ?thesis
    by (simp add: Cons up comp_def case_prod_beta del: upt_Suc)
qed


text \<open>
  C9 (30 requests of one window pass, the 31st of the same window is denied). Thirty
  requests at 0.1 s into a minute fill the window that starts with the minute. A request
  at 0.6 s into the same minute has \<^verbatim>\<open>EXTRACT(SECOND FROM now())::INTEGER\<close> rounded
  up to 1, so its window start is computed one second before the minute; no row has that
  start, the \<^verbatim>\<open>ON CONFLICT\<close> update is skipped because the stored start is later, and
  the function returns true: the 31st request is allowed, and the counter stays at 30.
\<close>

theorem C9_request_31_of_the_same_minute_is_allowed:
  "map rate_allowed (fst (checkRateLimit_seq example_env empty_db ''alice''
      (replicate 30 100000 @ [600000]))) = replicate 31 True \<and>
   rate_limits (snd (checkRateLimit_seq example_env empty_db ''alice''
      (replicate 30 100000 @ [600000]))) ''ai_proxy:alice''
     = Some \<lparr>window_start = 0, rl_count = 30\<rparr> \<and>
   compute_window_start 100000 60 = 0 \<and> compute_window_start 600000 60 = - 1000000"
  by (simp add: rl_eval eval_nat_numeral)

theorem C9_request_31_of_the_same_minute_is_allowed_witness:
  "last (map rate_allowed (fst (checkRateLimit_seq example_env empty_db ''alice''
      (replicate 30 100000 @ [600000])))) \<and>
   length (map rate_allowed (fst (checkRateLimit_seq example_env empty_db ''alice''
      (replicate 30 100000 @ [600000])))) = 31 \<and>
   (600000 :: int) - 100000 < 60 * 1000000"
  using C9_request_31_of_the_same_minute_is_allowed by simp

section \<open>Properties of the reducer\<close>

lemma applyEvent_rename_object:
  assumes "js_field kvs ''type'' = JStr ''project.rename''"
    and "js_field kvs ''payload'' = JObj pkvs"
  shows "applyEvent snap (JObj kvs) =
     (case js_field pkvs ''name'' of
        JStr n \<Rightarrow>
          if n = [] then Inl (Error ''Invalid project.rename payload: name cannot be empty'')
          else if 200 < length n
          then Inl (Error ''Invalid project.rename payload: name exceeds maximum length of 200'')
          else Inr (AList.update ''name'' (JStr n) snap)
      | _ \<Rightarrow> Inl (Error ''Invalid project.rename payload: name must be a string''))"
  using assms
  by (simp add: applyEvent_def applyRenameEvent_def isProjectRenameEvent_def split: jsval.splits)

lemma applyEvent_unknown_type:
  assumes "js_field kvs ''type'' = JStr ty" "ty \<noteq> []" "ty \<noteq> ''project.rename''"
  shows "applyEvent snap (JObj kvs) = Inl (Error (''Unknown event type: '' @ ty))"
  using assms by (simp add: applyEvent_def)

lemma applyEvent_never_noop:
  assumes "js_get event ''type'' \<noteq> Inr (JStr ''project.rename'')"
  shows "\<exists>err. applyEvent snap event = Inl err"
  using assms
  by (cases event) (auto simp: applyEvent_def split: jsval.splits sum.splits)

lemma applyEvent_no_type_string:
  assumes "\<forall>ty. js_field kvs ''type'' = JStr ty \<longrightarrow> ty = []"
  shows "applyEvent snap (JObj kvs) = Inl (Error ''Invalid event: must have a type string'')"
  using assms by (cases "js_field kvs ''type''") (simp_all add: applyEvent_def)

text \<open>
  The first statement of \<^verbatim>\<open>apply_project_event\<close> names \<^verbatim>\<open>snapshot\<close>, which is a column
  of \<^verbatim>\<open>project_projections\<close> and a column of \<^verbatim>\<open>RETURNS TABLE\<close>: every call raises
  there, whatever the project, the type and the payload.
\<close>

lemma select_projection_for_update_raises:
  "select_projection_for_update d pid = Inl (AmbiguousColumn ''snapshot'')"
  by (simp add: select_projection_for_update_def ambiguous_reference_def
      apply_project_event_variables_def project_projections_columns_def)

lemma apply_project_event_raises:
  "apply_project_event e d pid actor ty payload = Inl (AmbiguousColumn ''snapshot'')"
  by (simp add: apply_project_event_def select_projection_for_update_raises)

lemma rpc_apply_project_event_fails:
  "rpc_apply_project_event e d pid actor ty payload =
     (Inl (if fault_apply e then BackendUnavailable else AmbiguousColumn ''snapshot''), d)"
  by (simp add: rpc_apply_project_event_def apply_project_event_raises)

lemma ProposalSchema_rename:
  assumes "js_field kvs ''type'' = JStr ''project.rename''"
    and "js_field kvs ''payload'' = JObj pkvs"
  shows "ProposalSchema (JObj kvs) =
     (case js_field pkvs ''name'' of
        JStr n \<Rightarrow> if 1 \<le> length n \<and> length n \<le> 200
                  then Some \<lparr>prop_type = ''project.rename'', prop_name = n\<rparr> else None
      | _ \<Rightarrow> None)"
  using assms by (simp add: ProposalSchema_def split: jsval.splits)


section \<open>The claims about the reducer\<close>

text \<open>
  C7: the payload validation of the rename event. For every snapshot and every rename
  event with an object payload, the reducer accepts exactly the names that are strings of
  1 to 200 characters, and then sets \<open>name\<close>; a string of 201 characters, the empty
  string and a name that is no string are each rejected with a message of the family
  ``Invalid project.rename payload''. \<^verbatim>\<open>ProposalSchema\<close> of the commit endpoint accepts
  the same names.
\<close>

theorem C7_rename_payload_validation:
  assumes "js_field kvs ''type'' = JStr ''project.rename''"
    and "js_field kvs ''payload'' = JObj pkvs"
  shows "(\<forall>n. js_field pkvs ''name'' = JStr n \<and> 1 \<le> length n \<and> length n \<le> 200 \<longrightarrow>
            applyEvent snap (JObj kvs) = Inr (AList.update ''name'' (JStr n) snap) \<and>
            ProposalSchema (JObj kvs) = Some \<lparr>prop_type = ''project.rename'', prop_name = n\<rparr>) \<and>
         ((\<nexists>n. js_field pkvs ''name'' = JStr n \<and> 1 \<le> length n \<and> length n \<le> 200) \<longrightarrow>
            (\<exists>err. applyEvent snap (JObj kvs) = Inl err \<and> is_invalid_payload err) \<and>
            ProposalSchema (JObj kvs) = None) \<and>
         (\<forall>n. js_field pkvs ''name'' = JStr n \<and> length n = 201 \<longrightarrow>
            applyEvent snap (JObj kvs) =
              Inl (Error ''Invalid project.rename payload: name exceeds maximum length of 200'')) \<and>
         (js_field pkvs ''name'' = JStr [] \<longrightarrow>
            applyEvent snap (JObj kvs) =
              Inl (Error ''Invalid project.rename payload: name cannot be empty'')) \<and>
         ((\<forall>n. js_field pkvs ''name'' \<noteq> JStr n) \<longrightarrow>
            applyEvent snap (JObj kvs) =
              Inl (Error ''Invalid project.rename payload: name must be a string''))"
  unfolding applyEvent_rename_object[OF assms] ProposalSchema_rename[OF assms]
  by (auto simp: is_invalid_payload_def Suc_le_eq split: jsval.splits)

theorem C7_rename_payload_validation_witness:
  "applyEvent [] (JObj [(''type'', JStr ''project.rename''),
       (''payload'', JObj [(''name'', JStr (replicate 200 CHR ''a''))])])
     = Inr [(''name'', JStr (replicate 200 CHR ''a''))] \<and>
   applyEvent [] (JObj [(''type'', JStr ''project.rename''),
       (''payload'', JObj [(''name'', JStr (replicate 201 CHR ''a''))])])
     = Inl (Error ''Invalid project.rename payload: name exceeds maximum length of 200'') \<and>
   applyEvent [] (JObj [(''type'', JStr ''project.rename''),
       (''payload'', JObj [(''name'', JStr [])])])
     = Inl (Error ''Invalid project.rename payload: name cannot be empty'') \<and>
   applyEvent [] (JObj [(''type'', JStr ''project.rename''),
       (''payload'', JObj [(''name'', JNum 123)])])
     = Inl (Error ''Invalid project.rename payload: name must be a string'')"
proof -
  have ev: "js_field [(''type'', JStr ''project.rename''), (''payload'', JObj [(''name'', v)])]
      ''type'' = JStr ''project.rename''"
    "js_field [(''type'', JStr ''project.rename''), (''payload'', JObj [(''name'', v)])]
      ''payload'' = JObj [(''name'', v)]"
    "js_field [(''name'', v)] ''name'' = v" for v
    by (simp_all add: js_field_def)
  note inst = C7_rename_payload_validation[OF ev(1,2), of _ "[]"]
  from inst[of "JStr (replicate 200 CHR ''a'')"] inst[of "JStr (replicate 201 CHR ''a'')"]
    inst[of "JStr []"] inst[of "JNum 123"]
  show ?thesis by (simp add: ev(3))
qed

text \<open>
  C6 as stated (an event whose type is outside the vocabulary always fails with the
  unknown-type error) fails for the empty string: it is no recognized type, and the
  reducer rejects it with ``Invalid event: must have a type string'' instead.
\<close>

theorem C6_empty_type_is_rejected_as_invalid_event:
  "[] \<notin> set VALID_EVENT_TYPES \<and>
   applyEvent [] (JObj [(''type'', JStr [])])
     = Inl (Error ''Invalid event: must have a type string'') \<and>
   \<not> is_unknown_event_type (Error ''Invalid event: must have a type string'')"
  by (simp add: applyEvent_def js_field_def is_unknown_event_type_def VALID_EVENT_TYPES_def)

text \<open>
  C6, amended: the reducer rejects an event whose type is a non-empty string outside the
  vocabulary with ``Unknown event type: '' followed by the type; it rejects an event
  object whose type is missing, empty or not a string with ``Invalid event: must have a
  type string''; and it returns an error, never a snapshot, for every event whose type is
  not \<^verbatim>\<open>project.rename\<close>. When a type outside the vocabulary reaches
  \<^verbatim>\<open>apply_project_event\<close>, the call returns an error and the database is as before: no
  event row, the projection unchanged. The error of the call is the ambiguous column of
  the first statement of the function, which is raised before the \<^verbatim>\<open>CASE\<close> on the type
  is reached.
\<close>

theorem C6_unknown_event_type_is_rejected:
  "(js_field kvs ''type'' = JStr ty \<and> ty \<noteq> [] \<and> ty \<notin> set VALID_EVENT_TYPES \<longrightarrow>
      applyEvent snap (JObj kvs) = Inl (Error (''Unknown event type: '' @ ty)) \<and>
      is_unknown_event_type (Error (''Unknown event type: '' @ ty))) \<and>
   ((\<forall>ty. js_field kvs ''type'' = JStr ty \<longrightarrow> ty = []) \<longrightarrow>
      applyEvent snap (JObj kvs) = Inl (Error ''Invalid event: must have a type string'')) \<and>
   (js_get event ''type'' \<noteq> Inr (JStr ''project.rename'') \<longrightarrow>
      (\<exists>err. applyEvent snap event = Inl err)) \<and>
   (p_type \<notin> set VALID_EVENT_TYPES \<longrightarrow>
      (\<exists>err. rpc_apply_project_event e d pid actor p_type payload = (Inl err, d)) \<and>
      (\<not> fault_apply e \<longrightarrow>
         rpc_apply_project_event e d pid actor p_type payload
           = (Inl (AmbiguousColumn ''snapshot''), d)))"
proof (intro conjI impI)
  assume a: "js_field kvs ''type'' = JStr ty \<and> ty \<noteq> [] \<and> ty \<notin> set VALID_EVENT_TYPES"
  then show "applyEvent snap (JObj kvs) = Inl (Error (''Unknown event type: '' @ ty))"
    by (simp add: applyEvent_unknown_type VALID_EVENT_TYPES_def)
  show "is_unknown_event_type (Error (''Unknown event type: '' @ ty))"
    by (simp add: is_unknown_event_type_def)
next
  assume "\<forall>ty. js_field kvs ''type'' = JStr ty \<longrightarrow> ty = []"
  then show "applyEvent snap (JObj kvs) = Inl (Error ''Invalid event: must have a type string'')"
    by (rule applyEvent_no_type_string)
next
  assume "js_get event ''type'' \<noteq> Inr (JStr ''project.rename'')"
  then show "\<exists>err. applyEvent snap event = Inl err" by (rule applyEvent_never_noop)
next
  show "\<exists>err. rpc_apply_project_event e d pid actor p_type payload = (Inl err, d)"
    by (simp add: rpc_apply_project_event_fails)
  assume "\<not> fault_apply e"
  then show "rpc_apply_project_event e d pid actor p_type payload
           = (Inl (AmbiguousColumn ''snapshot''), d)"
    by (simp add: rpc_apply_project_event_fails)
qed

theorem C6_unknown_event_type_is_rejected_witness:
  "applyEvent [] (JObj [(''type'', JStr ''bogus'')]) = Inl (Error ''Unknown event type: bogus'') \<and>
   is_unknown_event_type (Error ''Unknown event type: bogus'') \<and>
   applyEvent [] (JObj [(''payload'', JObj [(''name'', JStr ''Bar'')])])
     = Inl (Error ''Invalid event: must have a type string'') \<and>
   (\<exists>err. applyEvent [] (JNum 7) = Inl err) \<and>
   rpc_apply_project_event example_env example_db_at_5 example_project ''alice'' ''bogus''
       (JObj [(''name'', JStr ''Bar'')])
     = (Inl (AmbiguousColumn ''snapshot''), example_db_at_5)"
proof -
  have ty: "js_field [(''type'', JStr ''bogus'')] ''type'' = JStr ''bogus'' \<and> ''bogus'' \<noteq> [] \<and>
      ''bogus'' \<notin> set VALID_EVENT_TYPES"
    by (simp add: js_field_def VALID_EVENT_TYPES_def)
  have no: "\<forall>ty. js_field [(''payload'', JObj [(''name'', JStr ''Bar'')])] ''type'' = JStr ty
      \<longrightarrow> ty = []"
    by (simp add: js_field_def)
  have num: "js_get (JNum 7) ''type'' \<noteq> Inr (JStr ''project.rename'')" by simp
  have ex: "\<not> fault_apply example_env" "''bogus'' \<notin> set VALID_EVENT_TYPES"
    by (simp_all add: example_env_def VALID_EVENT_TYPES_def)
  from C6_unknown_event_type_is_rejected[where kvs = "[(''type'', JStr ''bogus'')]"
      and ty = "''bogus''" and snap = "[]" and p_type = "''bogus''" and e = example_env
      and d = example_db_at_5 and pid = example_project and actor = "''alice''"
      and payload = "JObj [(''name'', JStr ''Bar'')]" and event = "JNum 7"]
    ty num ex
  have one: "applyEvent [] (JObj [(''type'', JStr ''bogus'')]) = Inl (Error ''Unknown event type: bogus'')"
    "is_unknown_event_type (Error ''Unknown event type: bogus'')"
    "\<exists>err. applyEvent [] (JNum 7) = Inl err"
    "rpc_apply_project_event example_env example_db_at_5 example_project ''alice'' ''bogus''
       (JObj [(''name'', JStr ''Bar'')])
     = (Inl (AmbiguousColumn ''snapshot''), example_db_at_5)"
    by simp_all
  from C6_unknown_event_type_is_rejected[where
      kvs = "[(''payload'', JObj [(''name'', JStr ''Bar'')])]" and snap = "[]"] no
  have two: "applyEvent [] (JObj [(''payload'', JObj [(''name'', JStr ''Bar'')])])
     = Inl (Error ''Invalid event: must have a type string'')"
    by blast
  from one two show ?thesis by simp
qed

section \<open>Properties of the commit path\<close>

lemma mutate_serve_stage_commit:
  assumes "req_method req = ''POST''" "verifyAuth e req = (u, None)" "u \<noteq> []"
    "checkRateLimit e d u = (rate, d1)" "rate_allowed rate" "req_body req = Some body"
    "MutateRequestSchema body = Some rq"
  shows "mutate_serve e d req = mutate_commit e d1 u rq"
  using assms by (simp add: mutate_serve_def)

lemma mutate_serve_stages:
  obtains
    (early) "project_events (snd (mutate_serve e d req)) = project_events d"
       "project_projections (snd (mutate_serve e d req)) = project_projections d"
       "projects (snd (mutate_serve e d req)) = projects d"
       "resp_status (fst (mutate_serve e d req)) \<in> {200, 405, 401, 429, 400}"
       "\<forall>p q s k. resp_body (fst (mutate_serve e d req)) \<noteq> MuCommitted p q s k"
  | (commit) u rate d1 body rq where
      "req_method req = ''POST''" "verifyAuth e req = (u, None)" "u \<noteq> []"
      "checkRateLimit e d u = (rate, d1)" "rate_allowed rate" "req_body req = Some body"
      "MutateRequestSchema body = Some rq"
proof -
  obtain u ae where va: "verifyAuth e req = (u, ae)" by (cases "verifyAuth e req")
  obtain rate d1 where rl: "checkRateLimit e d u = (rate, d1)" by (cases "checkRateLimit e d u")
  note fr = checkRateLimit_frame[OF rl]
  show ?thesis
  proof (cases "req_method req = ''POST''")
    case False
    then show ?thesis by (intro early) (simp_all add: mutate_serve_def respond_def)
  next
    case post: True
    show ?thesis
    proof (cases "ae \<noteq> None \<or> u = []")
      case True
      with post va show ?thesis
        by (intro early) (auto simp: mutate_serve_def respond_def)
    next
      case False
      then have va': "verifyAuth e req = (u, None)" and u: "u \<noteq> []" using va by auto
      show ?thesis
      proof (cases "rate_allowed rate")
        case False
        with post va' u rl fr show ?thesis
          by (intro early) (auto simp: mutate_serve_def respond_def)
      next
        case ra: True
        show ?thesis
        proof (cases "req_body req")
          case None
          with post va' u rl ra fr show ?thesis
            by (intro early) (auto simp: mutate_serve_def respond_def)
        next
          case (Some body)
          show ?thesis
          proof (cases "MutateRequestSchema body")
            case None
            with post va' u rl ra fr Some show ?thesis
              by (intro early) (auto simp: mutate_serve_def respond_def)
          next
            case (Some rq)
            from post va' u rl ra \<open>req_body req = Some body\<close> Some show ?thesis by (rule commit)
          qed
        qed
      qed
    qed
  qed
qed

text \<open>
  No request is answered with the body of a commit, and no request changes the log or a
  projection: the only writer of both is \<^verbatim>\<open>apply_project_event\<close>, and its transaction
  always aborts.
\<close>

lemma mutate_commit_never_commits:
  "snd (mutate_commit e d1 u rq) = d1 \<and>
   resp_status (fst (mutate_commit e d1 u rq)) \<in> {403, 409, 500} \<and>
   (\<forall>p q s k. resp_body (fst (mutate_commit e d1 u rq)) \<noteq> MuCommitted p q s k)"
  by (simp add: mutate_commit_def rpc_apply_project_event_fails respond_def Let_def)

lemma mutate_serve_never_commits:
  "project_events (snd (mutate_serve e d req)) = project_events d \<and>
   project_projections (snd (mutate_serve e d req)) = project_projections d \<and>
   (\<forall>p q s k. resp_body (fst (mutate_serve e d req)) \<noteq> MuCommitted p q s k)"
proof (cases rule: mutate_serve_stages[of e d req])
  case early
  then show ?thesis by simp
next
  case (commit u rate d1 body rq)
  note fr = checkRateLimit_frame[OF commit(4)]
  from mutate_serve_stage_commit[OF commit] mutate_commit_never_commits[of e d1 u rq] fr
  show ?thesis by simp
qed

lemma MutateRequestSchema_proposal:
  assumes "MutateRequestSchema body = Some rq"
  shows "prop_type (mq_proposal rq) = ''project.rename'' \<and>
         1 \<le> length (prop_name (mq_proposal rq)) \<and> length (prop_name (mq_proposal rq)) \<le> 200"
  using assms
  by (auto simp: MutateRequestSchema_def ProposalSchema_def
      split: jsval.splits option.splits if_splits)

lemma mutate_commit_conflict:
  assumes "projects d1 (mq_projectId rq) = Some project"
    and "proj_owner_id project = u \<or> project_members d1 (mq_projectId rq, u) = Some ''editor''"
    and "\<not> fault_projection_read e"
    and "mq_baseSeq rq = Some b" "b \<noteq> head_of d1 (mq_projectId rq)"
  shows "mutate_commit e d1 u rq = (respond 409 (MuConflict b (head_of d1 (mq_projectId rq))), d1)"
  using assms by (auto simp: mutate_commit_def head_of_def Let_def)

lemma mutate_commit_at_head:
  assumes "projects d1 (mq_projectId rq) = Some project"
    and "proj_owner_id project = u \<or> project_members d1 (mq_projectId rq, u) = Some ''editor''"
    and "\<not> fault_projection_read e" "\<not> fault_apply e"
    and "mq_baseSeq rq = None \<or> mq_baseSeq rq = Some (head_of d1 (mq_projectId rq))"
  shows "mutate_commit e d1 u rq = (respond 500 (MuApplyFailed (AmbiguousColumn ''snapshot'')), d1)"
proof -
  have hd: "(case project_projections d1 (mq_projectId rq) of None \<Rightarrow> 0
             | Some projection \<Rightarrow> head_seq projection) = head_of d1 (mq_projectId rq)"
    by (simp add: head_of_def)
  have base: "(mq_baseSeq rq \<noteq> None \<and> head_of d1 (mq_projectId rq) \<noteq> the (mq_baseSeq rq)) = False"
    "(mq_baseSeq rq \<noteq> None \<and> fault_projection_read e) = False"
    using assms(3,5) by auto
  have member: "(\<not> (case projects d1 (mq_projectId rq) of None \<Rightarrow> False
                        | Some project \<Rightarrow> proj_owner_id project = u) \<and>
                  \<not> (case project_members d1 (mq_projectId rq, u) of None \<Rightarrow> False
                        | Some role \<Rightarrow> role \<in> set [''editor'', ''viewer''])) = False"
    using assms(1,2) by auto
  have viewer: "(project_members d1 (mq_projectId rq, u) = Some ''viewer'' \<and>
                  \<not> (case projects d1 (mq_projectId rq) of None \<Rightarrow> False
                        | Some project \<Rightarrow> proj_owner_id project = u)) = False"
    using assms(1,2) by auto
  show ?thesis
    unfolding mutate_commit_def Let_def hd rpc_apply_project_event_fails member viewer base
    using assms(4) by simp
qed

section \<open>The claim about the commit path\<close>

text \<open>
  C1 (optimistic concurrency and sequence numbers): a commit with \<^verbatim>\<open>baseSeq\<close> equal to
  the head, or with none, does not succeed. For a project \<open>pid\<close> at head
  \<open>n = head_of d pid\<close> and a commit request that is authenticated, admitted by the rate
  limiter, well-formed and sent by the owner or an editor, with the backend answering: a
  \<^verbatim>\<open>baseSeq\<close> other than \<open>n\<close> is answered 409 with \<open>expected = baseSeq\<close> and
  \<open>current = n\<close>, as the claim says; but \<^verbatim>\<open>baseSeq = n\<close>, or none, is answered 500
  ``Failed to apply event'', with the ambiguous column \<^verbatim>\<open>snapshot\<close> of
  \<^verbatim>\<open>apply_project_event\<close> as the error, no event is appended and the head stays at
  \<open>n\<close>, where the claim says that the commit succeeds with \<open>seq = n + 1\<close>.
\<close>

theorem C1_commit_at_head_is_answered_500:
  assumes "req_method req = ''POST''" "verifyAuth e req = (u, None)" "u \<noteq> []"
    and "checkRateLimit e d u = (rate, d1)" "rate_allowed rate"
    and "req_body req = Some body" "MutateRequestSchema body = Some rq"
    and "mq_projectId rq = pid" "projects d pid = Some project"
    and "proj_owner_id project = u \<or> project_members d (pid, u) = Some ''editor''"
    and "\<not> fault_projection_read e" "\<not> fault_apply e"
  shows "(\<forall>b. mq_baseSeq rq = Some b \<and> b \<noteq> head_of d pid \<longrightarrow>
            mutate_serve e d req = (respond 409 (MuConflict b (head_of d pid)), d1)) \<and>
         (mq_baseSeq rq = None \<or> mq_baseSeq rq = Some (head_of d pid) \<longrightarrow>
            mutate_serve e d req =
              (respond 500 (MuApplyFailed (AmbiguousColumn ''snapshot'')), d1)) \<and>
         project_events d1 = project_events d \<and> head_of d1 pid = head_of d pid"
proof -
  have eq: "mutate_serve e d req = mutate_commit e d1 u rq"
    using assms(1-7) by (rule mutate_serve_stage_commit)
  have fr: "projects d1 = projects d" "project_members d1 = project_members d"
    "project_projections d1 = project_projections d" "project_events d1 = project_events d"
    using checkRateLimit_frame[OF assms(4)] by simp_all
  then have h: "head_of d1 pid = head_of d pid" by (simp add: head_of_def)
  have pr: "projects d1 (mq_projectId rq) = Some project"
    and ow: "proj_owner_id project = u \<or> project_members d1 (mq_projectId rq, u) = Some ''editor''"
    using assms(8-10) fr by simp_all
  have c409: "mutate_serve e d req = (respond 409 (MuConflict b (head_of d pid)), d1)"
    if "mq_baseSeq rq = Some b \<and> b \<noteq> head_of d pid" for b
    unfolding eq using mutate_commit_conflict[OF pr ow assms(11), of b] that assms(8) h by simp
  have c500: "mutate_serve e d req =
      (respond 500 (MuApplyFailed (AmbiguousColumn ''snapshot'')), d1)"
    if "mq_baseSeq rq = None \<or> mq_baseSeq rq = Some (head_of d pid)"
    unfolding eq using mutate_commit_at_head[OF pr ow assms(11,12)] that assms(8) h by simp
  from c409 c500 fr(4) h show ?thesis by blast
qed

lemmas mutate_eval = mutate_serve_def mutate_commit_def rpc_apply_project_event_def
  apply_project_event_def select_projection_for_update_def ambiguous_reference_def
  apply_project_event_variables_def project_projections_columns_def
  jsonb_field_text_def verifyAuth_def checkRateLimit_def
  check_rate_limit_def compute_window_start_def date_trunc_second_def
  extract_second_integer_def RATE_LIMIT_WINDOW_def RATE_LIMIT_MAX_REQUESTS_def
  MutateRequestSchema_def ProposalSchema_def parse_baseSeq_def parse_projectId_def
  parse_idempotencyKey_def js_field_def is_uuid_def is_hex_digit_def respond_def
  example_env_def empty_db_def example_request_def example_project_def example_event_def
  example_db_at_5_def rename_request_def Let_def

theorem C1_commit_at_head_is_answered_500_witness:
  "head_of example_db_at_5 example_project = 5 \<and>
   fst (mutate_serve example_env example_db_at_5 (rename_request (Some 4) ''Baz''))
     = respond 409 (MuConflict 4 5) \<and>
   fst (mutate_serve example_env example_db_at_5 (rename_request (Some 5) ''Bar''))
     = respond 500 (MuApplyFailed (AmbiguousColumn ''snapshot'')) \<and>
   fst (mutate_serve example_env example_db_at_5 (rename_request None ''Bar''))
     = respond 500 (MuApplyFailed (AmbiguousColumn ''snapshot'')) \<and>
   project_events (snd (mutate_serve example_env example_db_at_5 (rename_request (Some 5) ''Bar'')))
     = project_events example_db_at_5 \<and>
   head_of (snd (mutate_serve example_env example_db_at_5 (rename_request (Some 5) ''Bar'')))
     example_project = 5"
proof -
  have hd: "head_of example_db_at_5 example_project = 5"
    by (simp add: head_of_def example_db_at_5_def empty_db_def)
  have st: "req_method (rename_request base name) = ''POST''"
    "verifyAuth example_env (rename_request base name) = (''alice'', None)"
    "''alice'' \<noteq> []"
    "checkRateLimit example_env example_db_at_5 ''alice'' =
        (fst (checkRateLimit example_env example_db_at_5 ''alice''),
         snd (checkRateLimit example_env example_db_at_5 ''alice''))"
    "rate_allowed (fst (checkRateLimit example_env example_db_at_5 ''alice''))"
    "req_body (rename_request base name) = Some (the (req_body (rename_request base name)))"
    "projects example_db_at_5 example_project = Some (the (projects example_db_at_5 example_project))"
    "proj_owner_id (the (projects example_db_at_5 example_project)) = ''alice'' \<or>
        project_members example_db_at_5 (example_project, ''alice'') = Some ''editor''"
    "\<not> fault_projection_read example_env" "\<not> fault_apply example_env"
    for base name
    by (simp_all add: mutate_eval)
  have rq: "MutateRequestSchema (the (req_body (rename_request base name))) =
      Some \<lparr>mq_projectId = example_project, mq_baseSeq = base,
            mq_proposal = \<lparr>prop_type = ''project.rename'', prop_name = name\<rparr>,
            mq_idempotencyKey = None\<rparr>"
    if "case base of None \<Rightarrow> True | Some b \<Rightarrow> 0 \<le> b" "1 \<le> length name" "length name \<le> 200"
    for base name
    using that by (cases base) (simp_all add: mutate_eval)
  note inst = C1_commit_at_head_is_answered_500[OF st(1-6) rq _ st(7-10), simplified]
  from inst[of "Some 4" "''Baz''"] hd
  have c4: "fst (mutate_serve example_env example_db_at_5 (rename_request (Some 4) ''Baz''))
     = respond 409 (MuConflict 4 5)"
    by simp
  from inst[of "Some 5" "''Bar''"] hd
  have c5: "fst (mutate_serve example_env example_db_at_5 (rename_request (Some 5) ''Bar''))
     = respond 500 (MuApplyFailed (AmbiguousColumn ''snapshot''))"
    "project_events (snd (mutate_serve example_env example_db_at_5 (rename_request (Some 5) ''Bar'')))
     = project_events example_db_at_5"
    "head_of (snd (mutate_serve example_env example_db_at_5 (rename_request (Some 5) ''Bar'')))
     example_project = 5"
    by simp_all
  from inst[of None "''Bar''"] hd
  have c0: "fst (mutate_serve example_env example_db_at_5 (rename_request None ''Bar''))
     = respond 500 (MuApplyFailed (AmbiguousColumn ''snapshot''))"
    by simp
  from hd c4 c5 c0 show ?thesis by simp
qed

end
